theory Spec2Isabelle
  imports Main
begin

section \<open>JavaScript values as the chain client hands them over\<close>

text \<open>
  \<^verbatim>\<open>readContract\<close> is typed \<^verbatim>\<open>unknown\<close> at the call sites of \<^verbatim>\<open>registry.ts\<close>: the code
  inspects what it got at run time (\<^verbatim>\<open>typeof\<close>, \<^verbatim>\<open>in\<close>, \<^verbatim>\<open>Array.isArray\<close>) and its
  \<^verbatim>\<open>as\<close> casts do nothing at run time. The model therefore keeps a universe of run-time
  values. Numbers are integer valued here, strings are ASCII, and an array carries no
  named property of its own.
\<close>

type_synonym Address = string
type_synonym Hash = string

datatype jsval =
    JUndefined
  | JNull
  | JBool bool
  | JNumber int
  | JBigInt int
  | JString string
  | JArray "jsval list"
  | JObject "(string \<times> jsval) list"

text \<open>What \<^verbatim>\<open>if (v)\<close>, \<^verbatim>\<open>!v\<close> and \<^verbatim>\<open>v && ...\<close> test.\<close>

fun truthy :: "jsval \<Rightarrow> bool" where
  "truthy JUndefined = False"
| "truthy JNull = False"
| "truthy (JBool b) = b"
| "truthy (JNumber n) = (n \<noteq> 0)"
| "truthy (JBigInt n) = (n \<noteq> 0)"
| "truthy (JString s) = (s \<noteq> [])"
| "truthy (JArray xs) = True"
| "truthy (JObject kvs) = True"

text \<open>\<^verbatim>\<open>typeof v === 'object'\<close>: objects, arrays and \<^verbatim>\<open>null\<close>.\<close>

fun typeof_object :: "jsval \<Rightarrow> bool" where
  "typeof_object JNull = True"
| "typeof_object (JArray xs) = True"
| "typeof_object (JObject kvs) = True"
| "typeof_object v = False"

fun isArray :: "jsval \<Rightarrow> bool" where
  "isArray (JArray xs) = True"
| "isArray v = False"

text \<open>
  \<^verbatim>\<open>k in v\<close> for a field name \<open>k\<close> such as \<^verbatim>\<open>'owner'\<close> or \<^verbatim>\<open>'stake'\<close> (not an index, not
  \<^verbatim>\<open>length\<close>, not a name of a prototype). The source evaluates it only behind
  \<^verbatim>\<open>v && typeof v === 'object'\<close>, that is on objects and arrays.
\<close>

fun has_field :: "string \<Rightarrow> jsval \<Rightarrow> bool" where
  "has_field k (JObject kvs) = (map_of kvs k \<noteq> None)"
| "has_field k v = False"

text \<open>\<^verbatim>\<open>v.k\<close> on an object: a missing property reads as \<^verbatim>\<open>undefined\<close>.\<close>

fun get_field :: "jsval \<Rightarrow> string \<Rightarrow> jsval" where
  "get_field (JObject kvs) k = (case map_of kvs k of None \<Rightarrow> JUndefined | Some v \<Rightarrow> v)"
| "get_field v k = JUndefined"

text \<open>\<^verbatim>\<open>xs[i]\<close> on an array: an index out of range reads as \<^verbatim>\<open>undefined\<close>.\<close>

definition js_nth :: "jsval list \<Rightarrow> nat \<Rightarrow> jsval" where
  "js_nth xs i = (if i < length xs then xs ! i else JUndefined)"

fun get_index :: "jsval \<Rightarrow> nat \<Rightarrow> jsval" where
  "get_index (JArray xs) i = js_nth xs i"
| "get_index v i = JUndefined"

section \<open>Exceptions, events and asynchronous tasks\<close>

text \<open>
  A thrown value is an \<^verbatim>\<open>Error\<close> instance with its message (every subclass included:
  \<^verbatim>\<open>TypeError\<close>, the client library's errors) or some other value; \<^verbatim>\<open>err instanceof Error\<close>
  tells them apart.
\<close>

datatype js_exn = Error string | NonError jsval

fun instanceof_Error :: "js_exn \<Rightarrow> bool" where
  "instanceof_Error (Error m) = True"
| "instanceof_Error (NonError v) = False"

datatype Account = Account Address

record ContractCall =
  address :: Address
  functionName :: string
  args :: "jsval list"

record WriteContractParameters = ContractCall +
  call_value :: "int option"
  call_account :: Account

record RegistryAgentInfo =
  agentId :: jsval
  owner :: jsval
  name :: jsval
  version :: jsval
  capabilities :: jsval
  stake :: jsval
  reputation :: jsval
  isActive :: jsval
  registeredAt :: jsval

record RegistrationStatus =
  isRegistered :: bool
  agentInfo :: "RegistryAgentInfo option"

datatype TransactionState =
    TxIdle
  | TxPending "Hash option"
  | TxSuccess Hash
  | TxError js_exn

text \<open>
  Everything an invocation does that the outside can see, in the order it happens:
  the calls made on the chain client and the values handed to the hook's state setters.
\<close>

datatype event =
    ReadContract ContractCall
  | WriteContract WriteContractParameters
  | WaitForTransactionReceipt Hash
  | SetStatus "RegistrationStatus option"
  | SetIsLoading bool
  | SetError "js_exn option"
  | SetTxState TransactionState

type_synonym trace = "event list"

text \<open>
  An \<^verbatim>\<open>async\<close> function: from the events so far to its outcome (a rejection \<open>Inl\<close> or a
  value \<open>Inr\<close>) and the events extended by its own. \<^verbatim>\<open>await\<close> is sequencing.
\<close>

type_synonym 'a task = "trace \<Rightarrow> (js_exn + 'a) \<times> trace"

definition io_return :: "'a \<Rightarrow> 'a task" where
  "io_return x = (\<lambda>t. (Inr x, t))"

definition io_throw :: "js_exn \<Rightarrow> 'a task" where
  "io_throw e = (\<lambda>t. (Inl e, t))"

definition io_bind :: "'a task \<Rightarrow> ('a \<Rightarrow> 'b task) \<Rightarrow> 'b task" where
  "io_bind m f = (\<lambda>t. case m t of (Inl e, t') \<Rightarrow> (Inl e, t') | (Inr x, t') \<Rightarrow> f x t')"

text \<open>\<^verbatim>\<open>try { m } catch (e) { h e }\<close>\<close>

definition io_catch :: "'a task \<Rightarrow> (js_exn \<Rightarrow> 'a task) \<Rightarrow> 'a task" where
  "io_catch m h = (\<lambda>t. case m t of (Inl e, t') \<Rightarrow> h e t' | (Inr x, t') \<Rightarrow> (Inr x, t'))"

text \<open>\<^verbatim>\<open>try { m } finally { f }\<close>: \<open>f\<close> runs either way and the outcome of \<open>m\<close> stands
  unless \<open>f\<close> itself throws.\<close>

definition io_finally :: "'a task \<Rightarrow> unit task \<Rightarrow> 'a task" where
  "io_finally m f =
     (\<lambda>t. case m t of (r, t') \<Rightarrow>
        (case f t' of (Inl e, t'') \<Rightarrow> (Inl e, t'') | (Inr u, t'') \<Rightarrow> (r, t'')))"

definition emit :: "event \<Rightarrow> unit task" where
  "emit ev = (\<lambda>t. (Inr (), t @ [ev]))"

section \<open>The chain client\<close>

text \<open>
  The clients are the environment: each capability answers a call with a value or a
  fault, and the answer may depend on everything that happened before (the chain has
  state). Calls return; a promise that never settles is outside the model.
\<close>

record Log =
  topics :: "jsval list"
  data :: string

record TransactionReceipt =
  logs :: "Log list"

record PublicClient =
  readContract :: "trace \<Rightarrow> ContractCall \<Rightarrow> js_exn + jsval"
  waitForTransactionReceipt :: "trace \<Rightarrow> Hash \<Rightarrow> js_exn + TransactionReceipt"

record WalletClient =
  account :: "Account option"
  writeContract :: "trace \<Rightarrow> WriteContractParameters \<Rightarrow> js_exn + Hash"

definition await_readContract :: "PublicClient \<Rightarrow> ContractCall \<Rightarrow> jsval task" where
  "await_readContract publicClient c = (\<lambda>t. (readContract publicClient t c, t @ [ReadContract c]))"

definition await_writeContract :: "WalletClient \<Rightarrow> WriteContractParameters \<Rightarrow> Hash task" where
  "await_writeContract walletClient p =
     (\<lambda>t. (writeContract walletClient t p, t @ [WriteContract p]))"

definition await_waitForTransactionReceipt :: "PublicClient \<Rightarrow> Hash \<Rightarrow> TransactionReceipt task" where
  "await_waitForTransactionReceipt publicClient h =
     (\<lambda>t. (waitForTransactionReceipt publicClient t h, t @ [WaitForTransactionReceipt h]))"

section \<open>constants.ts\<close>

datatype SupportedNetwork = Arbitrum | ArbitrumSepolia

fun REGISTRY_CONTRACTS :: "SupportedNetwork \<Rightarrow> Address" where
  "REGISTRY_CONTRACTS Arbitrum = ''0x0000000000000000000000000000000000000000''"
| "REGISTRY_CONTRACTS ArbitrumSepolia = ''0x517De4c9Afa737A46Dcba61e1548AB3807963094''"

section \<open>registry.ts: the read path\<close>

text \<open>\<^verbatim>\<open>registryAddress ?? REGISTRY_CONTRACTS[network]\<close>\<close>

definition resolve :: "Address option \<Rightarrow> SupportedNetwork \<Rightarrow> Address" where
  "resolve registryAddress network =
     (case registryAddress of None \<Rightarrow> REGISTRY_CONTRACTS network | Some a \<Rightarrow> a)"

definition zeroAddress :: Address where
  "zeroAddress = ''0x0000000000000000000000000000000000000000''"

definition notRegistered :: RegistrationStatus where
  "notRegistered = \<lparr>isRegistered = False, agentInfo = None\<rparr>"

text \<open>
  \<^verbatim>\<open>[...v]\<close>: an array is copied, a string spreads into its characters, anything else is
  not iterable and the spread throws a \<^verbatim>\<open>TypeError\<close>.
\<close>

fun spread :: "jsval \<Rightarrow> jsval list task" where
  "spread (JArray xs) = io_return xs"
| "spread (JString s) = io_return (map (\<lambda>c. JString [c]) s)"
| "spread v = io_throw (Error ''not iterable'')"

text \<open>
  Lines 61 to 98 of \<^verbatim>\<open>checkRegistration\<close>: the record as the contract call returned it
  becomes the status. The object branch is tried first, then the array branch; what is
  neither ends as not registered.
\<close>

definition normalizeAgentData :: "jsval \<Rightarrow> jsval \<Rightarrow> RegistrationStatus task" where
  "normalizeAgentData agentId' agentData =
     (if truthy agentData \<and> typeof_object agentData \<and> has_field ''owner'' agentData then
        io_bind (spread (get_field agentData ''capabilities'')) (\<lambda>caps.
          io_return \<lparr>isRegistered = True, agentInfo = Some
            \<lparr>agentId = agentId',
             owner = get_field agentData ''owner'',
             name = get_field agentData ''name'',
             version = get_field agentData ''version'',
             capabilities = JArray caps,
             stake = get_field agentData ''stake'',
             reputation = get_field agentData ''reputation'',
             isActive = get_field agentData ''isActive'',
             registeredAt = get_field agentData ''registeredAt''\<rparr>\<rparr>)
      else if isArray agentData then
        io_return \<lparr>isRegistered = True, agentInfo = Some
          \<lparr>agentId = agentId',
           owner = get_index agentData 0,
           name = get_index agentData 1,
           version = get_index agentData 2,
           capabilities = get_index agentData 3,
           stake = get_index agentData 4,
           reputation = get_index agentData 5,
           isActive = get_index agentData 6,
           registeredAt = get_index agentData 7\<rparr>\<rparr>
      else io_return notRegistered)"

text \<open>The body of the \<^verbatim>\<open>try\<close> block of \<^verbatim>\<open>checkRegistration\<close> (lines 34 to 98).\<close>

definition isAgentRegistered_call :: "Address \<Rightarrow> Address \<Rightarrow> ContractCall" where
  "isAgentRegistered_call registry ownerAddress =
     \<lparr>address = registry, functionName = ''isAgentRegistered'', args = [JString ownerAddress]\<rparr>"

definition getAgentByOwner_call :: "Address \<Rightarrow> Address \<Rightarrow> ContractCall" where
  "getAgentByOwner_call registry ownerAddress =
     \<lparr>address = registry, functionName = ''getAgentByOwner'', args = [JString ownerAddress]\<rparr>"

definition getAgent_call :: "Address \<Rightarrow> jsval \<Rightarrow> ContractCall" where
  "getAgent_call registry agentId' =
     \<lparr>address = registry, functionName = ''getAgent'', args = [agentId']\<rparr>"

definition checkRegistration_try :: "PublicClient \<Rightarrow> Address \<Rightarrow> Address \<Rightarrow> RegistrationStatus task" where
  "checkRegistration_try publicClient registry ownerAddress =
     io_bind (await_readContract publicClient (isAgentRegistered_call registry ownerAddress))
       (\<lambda>isRegistered'.
         if \<not> truthy isRegistered' then io_return notRegistered
         else
           io_bind (await_readContract publicClient (getAgentByOwner_call registry ownerAddress))
             (\<lambda>agentId'.
               io_bind (await_readContract publicClient (getAgent_call registry agentId'))
                 (\<lambda>agentData. normalizeAgentData agentId' agentData)))"

definition checkRegistration ::
  "PublicClient \<Rightarrow> SupportedNetwork \<Rightarrow> Address \<Rightarrow> Address option \<Rightarrow> RegistrationStatus task" where
  "checkRegistration publicClient network ownerAddress registryAddress =
     (let registry = resolve registryAddress network in
      if registry = zeroAddress then io_return notRegistered
      else io_catch (checkRegistration_try publicClient registry ownerAddress)
             (\<lambda>error. io_return notRegistered))"


text \<open>
  \<^verbatim>\<open>getAgentStake\<close> (lines 317 to 339): no \<^verbatim>\<open>try\<close> here, a fault of the read is the
  caller's.
\<close>

definition getAgentStake ::
  "PublicClient \<Rightarrow> SupportedNetwork \<Rightarrow> jsval \<Rightarrow> Address option \<Rightarrow> jsval task" where
  "getAgentStake publicClient network agentId' registryAddress =
     (let registry = resolve registryAddress network in
      io_bind (await_readContract publicClient (getAgent_call registry agentId'))
        (\<lambda>agentData.
          if truthy agentData \<and> typeof_object agentData \<and> has_field ''stake'' agentData then
            io_return (get_field agentData ''stake'')
          else if isArray agentData then io_return (get_index agentData 4)
          else io_return (JBigInt 0)))"

section \<open>registry.ts: the write path\<close>

record AgentMetadata =
  md_name :: string
  md_version :: string
  md_capabilities :: "string list"
  selectedModel :: "string option"

record TransactionResult =
  hash :: Hash
  result_agentId :: jsval

text \<open>\<^verbatim>\<open>String.prototype.toLowerCase\<close> on ASCII text.\<close>

definition lower_char :: "char \<Rightarrow> char" where
  "lower_char c =
     (case map_of (zip ''ABCDEFGHIJKLMNOPQRSTUVWXYZ'' ''abcdefghijklmnopqrstuvwxyz'') c of
        None \<Rightarrow> c
      | Some l \<Rightarrow> l)"

definition toLowerCase :: "string \<Rightarrow> string" where
  "toLowerCase s = map lower_char s"

text \<open>
  \<^verbatim>\<open>log.topics[0]?.toLowerCase()\<close>: \<^verbatim>\<open>?.\<close> stops at \<^verbatim>\<open>undefined\<close> and \<^verbatim>\<open>null\<close>; a value
  that is not a string has no such method and the call throws.
\<close>

definition topic0_toLowerCase :: "Log \<Rightarrow> js_exn + jsval" where
  "topic0_toLowerCase log =
     (case js_nth (topics log) 0 of
        JUndefined \<Rightarrow> Inr JUndefined
      | JNull \<Rightarrow> Inr JUndefined
      | JString s \<Rightarrow> Inr (JString (toLowerCase s))
      | v \<Rightarrow> Inl (Error ''toLowerCase is not a function''))"

text \<open>The signature the logs are compared with (line 144).\<close>

definition expectedTopic :: string where
  "expectedTopic = ''0x'' @ toLowerCase ''AgentRegistered''"

text \<open>The callback of \<^verbatim>\<open>receipt.logs.find\<close>, with its own \<^verbatim>\<open>try\<close>/\<^verbatim>\<open>catch\<close>.\<close>

definition isRegisteredEvent :: "Log \<Rightarrow> bool" where
  "isRegisteredEvent log =
     (case topic0_toLowerCase log of
        Inl e \<Rightarrow> False
      | Inr v \<Rightarrow> v = JString expectedTopic)"

text \<open>\<^verbatim>\<open>receipt.logs.find(...)?.topics[1]\<close> (lines 142 to 150).\<close>

definition extractAgentId :: "TransactionReceipt \<Rightarrow> jsval" where
  "extractAgentId receipt =
     (case find isRegisteredEvent (logs receipt) of
        None \<Rightarrow> JUndefined
      | Some registeredEvent \<Rightarrow> js_nth (topics registeredEvent) 1)"

text \<open>The argument of \<^verbatim>\<open>walletClient.writeContract\<close> in \<^verbatim>\<open>registerAgent\<close> (lines 128 to 136).\<close>

definition registerAgent_request ::
  "Address \<Rightarrow> AgentMetadata \<Rightarrow> int option \<Rightarrow> Account \<Rightarrow> WriteContractParameters" where
  "registerAgent_request registry metadata stakeAmount account' =
     \<lparr>address = registry, functionName = ''registerAgent'',
      args = [JString (md_name metadata), JString (md_version metadata),
              JArray (map JString (md_capabilities metadata))],
      call_value = Some (case stakeAmount of None \<Rightarrow> 0 | Some v \<Rightarrow> v),
      call_account = account'\<rparr>"

definition registerAgent ::
  "PublicClient \<Rightarrow> WalletClient \<Rightarrow> SupportedNetwork \<Rightarrow> AgentMetadata \<Rightarrow> int option \<Rightarrow>
   Address option \<Rightarrow> TransactionResult task" where
  "registerAgent publicClient walletClient network metadata stakeAmount registryAddress =
     (let registry = resolve registryAddress network in
      case account walletClient of
        None \<Rightarrow> io_throw (Error ''Wallet not connected'')
      | Some account' \<Rightarrow>
          if registry = zeroAddress then
            io_throw (Error ''Registry contract not deployed on this network'')
          else
            io_bind (await_writeContract walletClient
                (registerAgent_request registry metadata stakeAmount account'))
              (\<lambda>hash'.
                io_bind (await_waitForTransactionReceipt publicClient hash')
                  (\<lambda>receipt.
                    io_return \<lparr>hash = hash', result_agentId = extractAgentId receipt\<rparr>)))"

definition updateAgentCapabilities ::
  "PublicClient \<Rightarrow> WalletClient \<Rightarrow> SupportedNetwork \<Rightarrow> jsval \<Rightarrow> string list \<Rightarrow>
   Address option \<Rightarrow> TransactionResult task" where
  "updateAgentCapabilities publicClient walletClient network agentId' capabilities' registryAddress =
     (let registry = resolve registryAddress network in
      case account walletClient of
        None \<Rightarrow> io_throw (Error ''Wallet not connected'')
      | Some account' \<Rightarrow>
          io_bind (await_writeContract walletClient
              \<lparr>address = registry, functionName = ''updateCapabilities'',
               args = [agentId', JArray (map JString capabilities')],
               call_value = None, call_account = account'\<rparr>)
            (\<lambda>hash'.
              io_bind (await_waitForTransactionReceipt publicClient hash')
                (\<lambda>receipt. io_return \<lparr>hash = hash', result_agentId = JUndefined\<rparr>)))"

definition addAgentStake ::
  "PublicClient \<Rightarrow> WalletClient \<Rightarrow> SupportedNetwork \<Rightarrow> jsval \<Rightarrow> int \<Rightarrow>
   Address option \<Rightarrow> TransactionResult task" where
  "addAgentStake publicClient walletClient network agentId' amount registryAddress =
     (let registry = resolve registryAddress network in
      case account walletClient of
        None \<Rightarrow> io_throw (Error ''Wallet not connected'')
      | Some account' \<Rightarrow>
          io_bind (await_writeContract walletClient
              \<lparr>address = registry, functionName = ''stake'', args = [agentId'],
               call_value = Some amount, call_account = account'\<rparr>)
            (\<lambda>hash'.
              io_bind (await_waitForTransactionReceipt publicClient hash')
                (\<lambda>receipt. io_return \<lparr>hash = hash', result_agentId = JUndefined\<rparr>)))"

definition withdrawAgentStake ::
  "PublicClient \<Rightarrow> WalletClient \<Rightarrow> SupportedNetwork \<Rightarrow> jsval \<Rightarrow> int \<Rightarrow>
   Address option \<Rightarrow> TransactionResult task" where
  "withdrawAgentStake publicClient walletClient network agentId' amount registryAddress =
     (let registry = resolve registryAddress network in
      case account walletClient of
        None \<Rightarrow> io_throw (Error ''Wallet not connected'')
      | Some account' \<Rightarrow>
          io_bind (await_writeContract walletClient
              \<lparr>address = registry, functionName = ''withdraw'',
               args = [agentId', JBigInt amount],
               call_value = None, call_account = account'\<rparr>)
            (\<lambda>hash'.
              io_bind (await_waitForTransactionReceipt publicClient hash')
                (\<lambda>receipt. io_return \<lparr>hash = hash', result_agentId = JUndefined\<rparr>)))"

definition deactivateAgent ::
  "PublicClient \<Rightarrow> WalletClient \<Rightarrow> SupportedNetwork \<Rightarrow> jsval \<Rightarrow>
   Address option \<Rightarrow> TransactionResult task" where
  "deactivateAgent publicClient walletClient network agentId' registryAddress =
     (let registry = resolve registryAddress network in
      case account walletClient of
        None \<Rightarrow> io_throw (Error ''Wallet not connected'')
      | Some account' \<Rightarrow>
          io_bind (await_writeContract walletClient
              \<lparr>address = registry, functionName = ''deactivateAgent'', args = [agentId'],
               call_value = None, call_account = account'\<rparr>)
            (\<lambda>hash'.
              io_bind (await_waitForTransactionReceipt publicClient hash')
                (\<lambda>receipt. io_return \<lparr>hash = hash', result_agentId = JUndefined\<rparr>)))"

definition reactivateAgent ::
  "PublicClient \<Rightarrow> WalletClient \<Rightarrow> SupportedNetwork \<Rightarrow> jsval \<Rightarrow>
   Address option \<Rightarrow> TransactionResult task" where
  "reactivateAgent publicClient walletClient network agentId' registryAddress =
     (let registry = resolve registryAddress network in
      case account walletClient of
        None \<Rightarrow> io_throw (Error ''Wallet not connected'')
      | Some account' \<Rightarrow>
          io_bind (await_writeContract walletClient
              \<lparr>address = registry, functionName = ''reactivateAgent'', args = [agentId'],
               call_value = None, call_account = account'\<rparr>)
            (\<lambda>hash'.
              io_bind (await_waitForTransactionReceipt publicClient hash')
                (\<lambda>receipt. io_return \<lparr>hash = hash', result_agentId = JUndefined\<rparr>)))"

section \<open>useAgentRegistry.ts: the facade hook\<close>

record UseAgentRegistryOptions =
  publicClient :: "PublicClient option"
  walletClient :: "WalletClient option"
  network :: SupportedNetwork
  userAddress :: "Address option"
  registryAddress :: "Address option"

text \<open>\<^verbatim>\<open>err instanceof Error ? err : new Error(msg)\<close>\<close>

definition toError :: "js_exn \<Rightarrow> string \<Rightarrow> js_exn" where
  "toError err msg = (if instanceof_Error err then err else Error msg)"

text \<open>
  \<^verbatim>\<open>fetchStatus\<close> (lines 59 to 82). \<^verbatim>\<open>!userAddress\<close> holds for a missing address and for
  the empty string.
\<close>

definition fetchStatus :: "UseAgentRegistryOptions \<Rightarrow> unit task" where
  "fetchStatus options =
     (case publicClient options of
        None \<Rightarrow> emit (SetStatus None)
      | Some pc \<Rightarrow>
          (case userAddress options of
             None \<Rightarrow> emit (SetStatus None)
           | Some addr \<Rightarrow>
               if addr = [] then emit (SetStatus None)
               else
                 io_bind (emit (SetIsLoading True)) (\<lambda>u.
                 io_bind (emit (SetError None)) (\<lambda>u.
                 io_finally
                   (io_catch
                      (io_bind (checkRegistration pc (network options) addr (registryAddress options))
                         (\<lambda>result. emit (SetStatus (Some result))))
                      (\<lambda>err.
                         io_bind (emit (SetError (Some (toError err ''Failed to check registration''))))
                           (\<lambda>u. emit (SetStatus None))))
                   (emit (SetIsLoading False))))))"

text \<open>
  The write callbacks. Each closes over the \<^verbatim>\<open>status\<close> of the render that created it,
  so the cached status is an argument. \<^verbatim>\<open>status?.agentInfo?.agentId\<close>:
\<close>

definition status_agentId :: "RegistrationStatus option \<Rightarrow> jsval" where
  "status_agentId status =
     (case status of
        None \<Rightarrow> JUndefined
      | Some s \<Rightarrow> (case agentInfo s of None \<Rightarrow> JUndefined | Some info \<Rightarrow> agentId info))"

definition register ::
  "UseAgentRegistryOptions \<Rightarrow> AgentMetadata \<Rightarrow> int option \<Rightarrow> TransactionResult task" where
  "register options metadata stakeAmount =
     (case publicClient options of
        None \<Rightarrow> io_throw (Error ''Wallet not connected'')
      | Some pc \<Rightarrow>
          (case walletClient options of
             None \<Rightarrow> io_throw (Error ''Wallet not connected'')
           | Some wc \<Rightarrow>
               io_bind (emit (SetTxState (TxPending None))) (\<lambda>u.
               io_bind (emit (SetError None)) (\<lambda>u.
               io_catch
                 (io_bind
                    (registerAgent pc wc (network options) metadata stakeAmount
                       (registryAddress options))
                    (\<lambda>result.
                       io_bind (emit (SetTxState (TxSuccess (hash result)))) (\<lambda>u.
                       io_bind (fetchStatus options) (\<lambda>u. io_return result))))
                 (\<lambda>err.
                    io_bind (emit (SetTxState (TxError (toError err ''Registration failed'')))) (\<lambda>u.
                    io_bind (emit (SetError (Some (toError err ''Registration failed'')))) (\<lambda>u.
                    io_throw (toError err ''Registration failed''))))))))"

definition updateCapabilities ::
  "UseAgentRegistryOptions \<Rightarrow> RegistrationStatus option \<Rightarrow> string list \<Rightarrow>
   TransactionResult task" where
  "updateCapabilities options status capabilities' =
     (case publicClient options of
        None \<Rightarrow> io_throw (Error ''Agent not registered or wallet not connected'')
      | Some pc \<Rightarrow>
          (case walletClient options of
             None \<Rightarrow> io_throw (Error ''Agent not registered or wallet not connected'')
           | Some wc \<Rightarrow>
               if \<not> truthy (status_agentId status) then
                 io_throw (Error ''Agent not registered or wallet not connected'')
               else
                 io_bind (emit (SetTxState (TxPending None))) (\<lambda>u.
                 io_bind (emit (SetError None)) (\<lambda>u.
                 io_catch
                   (io_bind
                      (updateAgentCapabilities pc wc (network options) (status_agentId status)
                         capabilities' (registryAddress options))
                      (\<lambda>result.
                         io_bind (emit (SetTxState (TxSuccess (hash result)))) (\<lambda>u.
                         io_bind (fetchStatus options) (\<lambda>u. io_return result))))
                   (\<lambda>err.
                      io_bind (emit (SetTxState (TxError (toError err ''Update failed'')))) (\<lambda>u.
                      io_bind (emit (SetError (Some (toError err ''Update failed'')))) (\<lambda>u.
                      io_throw (toError err ''Update failed''))))))))"

definition addStake ::
  "UseAgentRegistryOptions \<Rightarrow> RegistrationStatus option \<Rightarrow> int \<Rightarrow> TransactionResult task" where
  "addStake options status amount =
     (case publicClient options of
        None \<Rightarrow> io_throw (Error ''Agent not registered or wallet not connected'')
      | Some pc \<Rightarrow>
          (case walletClient options of
             None \<Rightarrow> io_throw (Error ''Agent not registered or wallet not connected'')
           | Some wc \<Rightarrow>
               if \<not> truthy (status_agentId status) then
                 io_throw (Error ''Agent not registered or wallet not connected'')
               else
                 io_bind (emit (SetTxState (TxPending None))) (\<lambda>u.
                 io_bind (emit (SetError None)) (\<lambda>u.
                 io_catch
                   (io_bind
                      (addAgentStake pc wc (network options) (status_agentId status) amount
                         (registryAddress options))
                      (\<lambda>result.
                         io_bind (emit (SetTxState (TxSuccess (hash result)))) (\<lambda>u.
                         io_bind (fetchStatus options) (\<lambda>u. io_return result))))
                   (\<lambda>err.
                      io_bind (emit (SetTxState (TxError (toError err ''Staking failed'')))) (\<lambda>u.
                      io_bind (emit (SetError (Some (toError err ''Staking failed'')))) (\<lambda>u.
                      io_throw (toError err ''Staking failed''))))))))"

definition withdrawStake ::
  "UseAgentRegistryOptions \<Rightarrow> RegistrationStatus option \<Rightarrow> int \<Rightarrow> TransactionResult task" where
  "withdrawStake options status amount =
     (case publicClient options of
        None \<Rightarrow> io_throw (Error ''Agent not registered or wallet not connected'')
      | Some pc \<Rightarrow>
          (case walletClient options of
             None \<Rightarrow> io_throw (Error ''Agent not registered or wallet not connected'')
           | Some wc \<Rightarrow>
               if \<not> truthy (status_agentId status) then
                 io_throw (Error ''Agent not registered or wallet not connected'')
               else
                 io_bind (emit (SetTxState (TxPending None))) (\<lambda>u.
                 io_bind (emit (SetError None)) (\<lambda>u.
                 io_catch
                   (io_bind
                      (withdrawAgentStake pc wc (network options) (status_agentId status) amount
                         (registryAddress options))
                      (\<lambda>result.
                         io_bind (emit (SetTxState (TxSuccess (hash result)))) (\<lambda>u.
                         io_bind (fetchStatus options) (\<lambda>u. io_return result))))
                   (\<lambda>err.
                      io_bind (emit (SetTxState (TxError (toError err ''Withdrawal failed'')))) (\<lambda>u.
                      io_bind (emit (SetError (Some (toError err ''Withdrawal failed'')))) (\<lambda>u.
                      io_throw (toError err ''Withdrawal failed''))))))))"

definition deactivate ::
  "UseAgentRegistryOptions \<Rightarrow> RegistrationStatus option \<Rightarrow> TransactionResult task" where
  "deactivate options status =
     (case publicClient options of
        None \<Rightarrow> io_throw (Error ''Agent not registered or wallet not connected'')
      | Some pc \<Rightarrow>
          (case walletClient options of
             None \<Rightarrow> io_throw (Error ''Agent not registered or wallet not connected'')
           | Some wc \<Rightarrow>
               if \<not> truthy (status_agentId status) then
                 io_throw (Error ''Agent not registered or wallet not connected'')
               else
                 io_bind (emit (SetTxState (TxPending None))) (\<lambda>u.
                 io_bind (emit (SetError None)) (\<lambda>u.
                 io_catch
                   (io_bind
                      (deactivateAgent pc wc (network options) (status_agentId status)
                         (registryAddress options))
                      (\<lambda>result.
                         io_bind (emit (SetTxState (TxSuccess (hash result)))) (\<lambda>u.
                         io_bind (fetchStatus options) (\<lambda>u. io_return result))))
                   (\<lambda>err.
                      io_bind (emit (SetTxState (TxError (toError err ''Deactivation failed'')))) (\<lambda>u.
                      io_bind (emit (SetError (Some (toError err ''Deactivation failed'')))) (\<lambda>u.
                      io_throw (toError err ''Deactivation failed''))))))))"

definition reactivate ::
  "UseAgentRegistryOptions \<Rightarrow> RegistrationStatus option \<Rightarrow> TransactionResult task" where
  "reactivate options status =
     (case publicClient options of
        None \<Rightarrow> io_throw (Error ''Agent not registered or wallet not connected'')
      | Some pc \<Rightarrow>
          (case walletClient options of
             None \<Rightarrow> io_throw (Error ''Agent not registered or wallet not connected'')
           | Some wc \<Rightarrow>
               if \<not> truthy (status_agentId status) then
                 io_throw (Error ''Agent not registered or wallet not connected'')
               else
                 io_bind (emit (SetTxState (TxPending None))) (\<lambda>u.
                 io_bind (emit (SetError None)) (\<lambda>u.
                 io_catch
                   (io_bind
                      (reactivateAgent pc wc (network options) (status_agentId status)
                         (registryAddress options))
                      (\<lambda>result.
                         io_bind (emit (SetTxState (TxSuccess (hash result)))) (\<lambda>u.
                         io_bind (fetchStatus options) (\<lambda>u. io_return result))))
                   (\<lambda>err.
                      io_bind (emit (SetTxState (TxError (toError err ''Reactivation failed'')))) (\<lambda>u.
                      io_bind (emit (SetError (Some (toError err ''Reactivation failed'')))) (\<lambda>u.
                      io_throw (toError err ''Reactivation failed''))))))))"

text \<open>
  The object the hook returns has one callback per write action; an invocation names
  the callback and gives its arguments.
\<close>

datatype action =
    Register AgentMetadata "int option"
  | UpdateCapabilities "string list"
  | AddStake int
  | WithdrawStake int
  | Deactivate
  | Reactivate

fun invoke ::
  "UseAgentRegistryOptions \<Rightarrow> RegistrationStatus option \<Rightarrow> action \<Rightarrow> TransactionResult task" where
  "invoke options status (Register metadata stakeAmount) = register options metadata stakeAmount"
| "invoke options status (UpdateCapabilities cs) = updateCapabilities options status cs"
| "invoke options status (AddStake amount) = addStake options status amount"
| "invoke options status (WithdrawStake amount) = withdrawStake options status amount"
| "invoke options status Deactivate = deactivate options status"
| "invoke options status Reactivate = reactivate options status"

text \<open>
  What an observer of \<^verbatim>\<open>txState\<close> sees: the values handed to \<^verbatim>\<open>setTxState\<close>, in order,
  after the initial \<^verbatim>\<open>{ status: 'idle' }\<close> of \<^verbatim>\<open>useState\<close>.
\<close>

fun txStates :: "trace \<Rightarrow> TransactionState list" where
  "txStates [] = []"
| "txStates (SetTxState s # es) = s # txStates es"
| "txStates (e # es) = txStates es"

definition txState :: "trace \<Rightarrow> TransactionState" where
  "txState t = last (TxIdle # txStates t)"

section \<open>Concrete clients\<close>

text \<open>
  A read client with faults: the registration predicate fails for owner \<^verbatim>\<open>0xA1\<close>, the
  identifier lookup fails for owner \<^verbatim>\<open>0xA2\<close>, and the record fetch always fails.
\<close>

definition flakyClient :: PublicClient where
  "flakyClient =
     \<lparr>readContract = (\<lambda>t c.
        if functionName c = ''isAgentRegistered'' then
          (if args c = [JString ''0xA1''] then Inl (Error ''timeout'') else Inr (JBool True))
        else if functionName c = ''getAgentByOwner'' then
          (if args c = [JString ''0xA2''] then Inl (Error ''timeout'') else Inr (JString ''0x01''))
        else Inl (Error ''timeout'')),
      waitForTransactionReceipt = (\<lambda>t h. Inl (Error ''timeout''))\<rparr>"

text \<open>
  The positional shape of a record, in the order the specification gives:
  owner, name, version, capabilities, stake, reputation, isActive, registeredAt.
\<close>

definition positional :: "jsval \<Rightarrow> jsval" where
  "positional obj =
     JArray (map (get_field obj)
       [''owner'', ''name'', ''version'', ''capabilities'', ''stake'', ''reputation'',
        ''isActive'', ''registeredAt''])"

definition sampleAgent :: jsval where
  "sampleAgent = JObject
     [(''owner'', JString ''0xA3''), (''name'', JString ''MyAgent''),
      (''version'', JString ''0.1.0''), (''capabilities'', JArray [JString ''text-generation'']),
      (''stake'', JBigInt 10), (''reputation'', JBigInt 0), (''isActive'', JBool True),
      (''registeredAt'', JBigInt 1700000000)]"

text \<open>
  A read client of a chain where every owner is registered as agent \<^verbatim>\<open>0x01\<close>: the record
  fetch answers with the given value and every transaction gets the given receipt.
\<close>

definition chainClient :: "jsval \<Rightarrow> TransactionReceipt \<Rightarrow> PublicClient" where
  "chainClient agentData receipt =
     \<lparr>readContract = (\<lambda>t c.
        if functionName c = ''isAgentRegistered'' then Inr (JBool True)
        else if functionName c = ''getAgentByOwner'' then Inr (JString ''0x01'')
        else Inr agentData),
      waitForTransactionReceipt = (\<lambda>t h. Inr receipt)\<rparr>"

definition emptyReceipt :: TransactionReceipt where
  "emptyReceipt = \<lparr>logs = []\<rparr>"

definition sampleMetadata :: AgentMetadata where
  "sampleMetadata =
     \<lparr>md_name = ''MyAgent'', md_version = ''0.1.0'', md_capabilities = [''text-generation''],
      selectedModel = None\<rparr>"

text \<open>A wallet with an account that signs everything, one whose user rejects every
  request, and one that is attached without an account.\<close>

definition signer :: WalletClient where
  "signer = \<lparr>account = Some (Account ''0xA3''), writeContract = (\<lambda>t p. Inr ''0xTX'')\<rparr>"

definition rejectingSigner :: WalletClient where
  "rejectingSigner =
     \<lparr>account = Some (Account ''0xA3''),
      writeContract = (\<lambda>t p. Inl (Error ''User rejected the request''))\<rparr>"

definition lockedWallet :: WalletClient where
  "lockedWallet = \<lparr>account = None, writeContract = (\<lambda>t p. Inr ''0xTX'')\<rparr>"

text \<open>A read client whose reads all fail while receipts arrive.\<close>

definition readFaultClient :: "TransactionReceipt \<Rightarrow> PublicClient" where
  "readFaultClient receipt =
     \<lparr>readContract = (\<lambda>t c. Inl (Error ''timeout'')),
      waitForTransactionReceipt = (\<lambda>t h. Inr receipt)\<rparr>"

text \<open>
  A receipt as a registry emits it on registration: one log whose first topic is a
  32-byte hash and whose second topic is the new agent's identifier.
\<close>

definition registeredReceipt :: TransactionReceipt where
  "registeredReceipt =
     \<lparr>logs =
        [\<lparr>topics =
            [JString ''0x8c5be1e5ebec7d5bd14f71427d1e84f3dd0314c0f7b2291e5b200ac8c7c3b925'',
             JString ''0x00000000000000000000000000000000000000000000000000000000000000a1''],
          data = ''0x''\<rparr>]\<rparr>"

text \<open>
  A well-formed topic: a 32-byte value in hexadecimal, \<^verbatim>\<open>0x\<close> and 64 digits. A receipt is
  well formed when every topic of every log is.
\<close>

definition isHexDigit :: "char \<Rightarrow> bool" where
  "isHexDigit c = (c \<in> set ''0123456789abcdefABCDEF'')"

fun isTopic32 :: "jsval \<Rightarrow> bool" where
  "isTopic32 (JString s) = (length s = 66 \<and> take 2 s = ''0x'' \<and> list_all isHexDigit (drop 2 s))"
| "isTopic32 v = False"

definition wellFormedLogs :: "TransactionReceipt \<Rightarrow> bool" where
  "wellFormedLogs receipt = list_all (\<lambda>log. list_all isTopic32 (topics log)) (logs receipt)"

section \<open>The shape shared by the six write callbacks\<close>

text \<open>
  Each write callback of the hook, once its guard has passed, is the same wrapper around
  one function of \<^verbatim>\<open>registry.ts\<close>, up to the message of the fallback error. The wrapper
  is stated once here and each callback is proved equal to an instance of it.
\<close>

definition tracked ::
  "TransactionResult task \<Rightarrow> string \<Rightarrow> UseAgentRegistryOptions \<Rightarrow> TransactionResult task" where
  "tracked m msg options =
     io_bind (emit (SetTxState (TxPending None))) (\<lambda>u.
     io_bind (emit (SetError None)) (\<lambda>u.
     io_catch
       (io_bind m
          (\<lambda>result.
             io_bind (emit (SetTxState (TxSuccess (hash result)))) (\<lambda>u.
             io_bind (fetchStatus options) (\<lambda>u. io_return result))))
       (\<lambda>err.
          io_bind (emit (SetTxState (TxError (toError err msg)))) (\<lambda>u.
          io_bind (emit (SetError (Some (toError err msg)))) (\<lambda>u.
          io_throw (toError err msg))))))"

fun isRegister :: "action \<Rightarrow> bool" where
  "isRegister (Register metadata stakeAmount) = True"
| "isRegister a = False"

text \<open>The function of \<^verbatim>\<open>registry.ts\<close> a callback awaits, and its fallback message.\<close>

fun registryCall ::
  "PublicClient \<Rightarrow> WalletClient \<Rightarrow> UseAgentRegistryOptions \<Rightarrow> RegistrationStatus option \<Rightarrow>
   action \<Rightarrow> TransactionResult task" where
  "registryCall pc wc options status (Register metadata stakeAmount) =
     registerAgent pc wc (network options) metadata stakeAmount (registryAddress options)"
| "registryCall pc wc options status (UpdateCapabilities cs) =
     updateAgentCapabilities pc wc (network options) (status_agentId status) cs
       (registryAddress options)"
| "registryCall pc wc options status (AddStake amount) =
     addAgentStake pc wc (network options) (status_agentId status) amount (registryAddress options)"
| "registryCall pc wc options status (WithdrawStake amount) =
     withdrawAgentStake pc wc (network options) (status_agentId status) amount
       (registryAddress options)"
| "registryCall pc wc options status Deactivate =
     deactivateAgent pc wc (network options) (status_agentId status) (registryAddress options)"
| "registryCall pc wc options status Reactivate =
     reactivateAgent pc wc (network options) (status_agentId status) (registryAddress options)"

fun fallbackMessage :: "action \<Rightarrow> string" where
  "fallbackMessage (Register metadata stakeAmount) = ''Registration failed''"
| "fallbackMessage (UpdateCapabilities cs) = ''Update failed''"
| "fallbackMessage (AddStake amount) = ''Staking failed''"
| "fallbackMessage (WithdrawStake amount) = ''Withdrawal failed''"
| "fallbackMessage Deactivate = ''Deactivation failed''"
| "fallbackMessage Reactivate = ''Reactivation failed''"

text \<open>The message of the error a callback throws when its guard fails.\<close>

fun guardMessage :: "action \<Rightarrow> string" where
  "guardMessage (Register metadata stakeAmount) = ''Wallet not connected''"
| "guardMessage a = ''Agent not registered or wallet not connected''"

text \<open>A task is quiet when it only appends events and none of them sets \<^verbatim>\<open>txState\<close>.\<close>

definition quiet :: "'a task \<Rightarrow> bool" where
  "quiet m = (\<forall>t. \<exists>es. snd (m t) = t @ es \<and> txStates es = [])"

text \<open>The options of a hook on the test network, for owner \<^verbatim>\<open>0xA3\<close>.\<close>

definition hookOptions :: "PublicClient \<Rightarrow> WalletClient option \<Rightarrow> UseAgentRegistryOptions" where
  "hookOptions pc wc =
     \<lparr>publicClient = Some pc, walletClient = wc, network = ArbitrumSepolia,
      userAddress = Some ''0xA3'', registryAddress = None\<rparr>"

text \<open>A cached status of a registered owner.\<close>

definition registeredStatus :: RegistrationStatus where
  "registeredStatus =
     \<lparr>isRegistered = True, agentInfo = Some
       \<lparr>agentId = JString ''0x01'', owner = JString ''0xA3'', name = JString ''MyAgent'',
        version = JString ''0.1.0'', capabilities = JArray [JString ''text-generation''],
        stake = JBigInt 10, reputation = JBigInt 0, isActive = JBool True,
        registeredAt = JBigInt 1700000000\<rparr>\<rparr>"

section \<open>The read path absorbs faults\<close>

text \<open>
  Claim C1. \<^verbatim>\<open>checkRegistration\<close> never rejects, whatever the network, the owner, the
  override and the client do; and when one of the three reads it performs (the
  registration predicate, the identifier lookup, the record fetch) answers with a fault,
  it returns \<^verbatim>\<open>{ isRegistered: false }\<close>.
\<close>

theorem checkRegistration_absorbs_faults:
  "(\<exists>s. fst (checkRegistration pc net own reg t) = Inr s) \<and>
   (readContract pc t (isAgentRegistered_call (resolve reg net) own) = Inl f \<longrightarrow>
      fst (checkRegistration pc net own reg t) = Inr notRegistered) \<and>
   (readContract pc t (isAgentRegistered_call (resolve reg net) own) = Inr v \<and> truthy v \<and>
    readContract pc (t @ [ReadContract (isAgentRegistered_call (resolve reg net) own)])
      (getAgentByOwner_call (resolve reg net) own) = Inl f \<longrightarrow>
      fst (checkRegistration pc net own reg t) = Inr notRegistered) \<and>
   (readContract pc t (isAgentRegistered_call (resolve reg net) own) = Inr v \<and> truthy v \<and>
    readContract pc (t @ [ReadContract (isAgentRegistered_call (resolve reg net) own)])
      (getAgentByOwner_call (resolve reg net) own) = Inr aid \<and>
    readContract pc (t @ [ReadContract (isAgentRegistered_call (resolve reg net) own),
                          ReadContract (getAgentByOwner_call (resolve reg net) own)])
      (getAgent_call (resolve reg net) aid) = Inl f \<longrightarrow>
      fst (checkRegistration pc net own reg t) = Inr notRegistered)"
  unfolding checkRegistration_def checkRegistration_try_def io_catch_def io_return_def io_bind_def
    await_readContract_def Let_def
  by (auto split: prod.splits sum.splits)

theorem checkRegistration_absorbs_faults_witness:
  "readContract flakyClient [] (isAgentRegistered_call (resolve None ArbitrumSepolia) ''0xA1'')
     = Inl (Error ''timeout'') \<and>
   fst (checkRegistration flakyClient ArbitrumSepolia ''0xA1'' None []) = Inr notRegistered \<and>
   readContract flakyClient
     [ReadContract (isAgentRegistered_call (resolve None ArbitrumSepolia) ''0xA2'')]
     (getAgentByOwner_call (resolve None ArbitrumSepolia) ''0xA2'') = Inl (Error ''timeout'') \<and>
   fst (checkRegistration flakyClient ArbitrumSepolia ''0xA2'' None []) = Inr notRegistered \<and>
   readContract flakyClient
     [ReadContract (isAgentRegistered_call (resolve None ArbitrumSepolia) ''0xA3''),
      ReadContract (getAgentByOwner_call (resolve None ArbitrumSepolia) ''0xA3'')]
     (getAgent_call (resolve None ArbitrumSepolia) (JString ''0x01'')) = Inl (Error ''timeout'') \<and>
   fst (checkRegistration flakyClient ArbitrumSepolia ''0xA3'' None []) = Inr notRegistered"
  using
    checkRegistration_absorbs_faults
      [of flakyClient ArbitrumSepolia "''0xA1''" None "[]" "Error ''timeout''"]
    checkRegistration_absorbs_faults
      [of flakyClient ArbitrumSepolia "''0xA2''" None "[]" "Error ''timeout''" "JBool True"]
    checkRegistration_absorbs_faults
      [of flakyClient ArbitrumSepolia "''0xA3''" None "[]" "Error ''timeout''" "JBool True"
          "JString ''0x01''"]
  by (simp add: flakyClient_def resolve_def isAgentRegistered_call_def getAgentByOwner_call_def
      getAgent_call_def)

section \<open>One record from two shapes\<close>

lemma normalize_structured:
  assumes "has_field ''owner'' (JObject kvs)"
    and "get_field (JObject kvs) ''capabilities'' = JArray cs"
  shows "normalizeAgentData aid (JObject kvs) t =
         (Inr \<lparr>isRegistered = True, agentInfo = Some
            \<lparr>agentId = aid,
             owner = get_field (JObject kvs) ''owner'',
             name = get_field (JObject kvs) ''name'',
             version = get_field (JObject kvs) ''version'',
             capabilities = get_field (JObject kvs) ''capabilities'',
             stake = get_field (JObject kvs) ''stake'',
             reputation = get_field (JObject kvs) ''reputation'',
             isActive = get_field (JObject kvs) ''isActive'',
             registeredAt = get_field (JObject kvs) ''registeredAt''\<rparr>\<rparr>, t)"
  using assms by (simp add: normalizeAgentData_def io_bind_def io_return_def)

lemma normalize_positional:
  "normalizeAgentData aid (positional (JObject kvs)) t =
         (Inr \<lparr>isRegistered = True, agentInfo = Some
            \<lparr>agentId = aid,
             owner = get_field (JObject kvs) ''owner'',
             name = get_field (JObject kvs) ''name'',
             version = get_field (JObject kvs) ''version'',
             capabilities = get_field (JObject kvs) ''capabilities'',
             stake = get_field (JObject kvs) ''stake'',
             reputation = get_field (JObject kvs) ''reputation'',
             isActive = get_field (JObject kvs) ''isActive'',
             registeredAt = get_field (JObject kvs) ''registeredAt''\<rparr>\<rparr>, t)"
  by (simp add: normalizeAgentData_def positional_def io_return_def js_nth_def del: get_field.simps)

lemma normalize_neither:
  assumes "\<not> (truthy d \<and> typeof_object d \<and> has_field ''owner'' d)" and "\<not> isArray d"
  shows "normalizeAgentData aid d t = (Inr notRegistered, t)"
  using assms by (auto simp add: normalizeAgentData_def io_return_def)

lemma checkRegistration_registered:
  assumes "resolve reg net \<noteq> zeroAddress"
    and "readContract pc t (isAgentRegistered_call (resolve reg net) own) = Inr v" and "truthy v"
    and "readContract pc (t @ [ReadContract (isAgentRegistered_call (resolve reg net) own)])
           (getAgentByOwner_call (resolve reg net) own) = Inr aid"
    and "readContract pc (t @ [ReadContract (isAgentRegistered_call (resolve reg net) own),
                               ReadContract (getAgentByOwner_call (resolve reg net) own)])
           (getAgent_call (resolve reg net) aid) = Inr d"
  shows "fst (checkRegistration pc net own reg t) =
         (case fst (normalizeAgentData aid d
              (t @ [ReadContract (isAgentRegistered_call (resolve reg net) own),
                    ReadContract (getAgentByOwner_call (resolve reg net) own),
                    ReadContract (getAgent_call (resolve reg net) aid)])) of
            Inl e \<Rightarrow> Inr notRegistered | Inr s \<Rightarrow> Inr s)"
  using assms
  unfolding checkRegistration_def checkRegistration_try_def io_catch_def io_return_def io_bind_def
    await_readContract_def Let_def
  by (auto split: prod.splits sum.splits)


text \<open>
  Claim C2. For a registered owner the status does not depend on the shape in which the
  record fetch answers: an object with an \<^verbatim>\<open>owner\<close> field whose \<^verbatim>\<open>capabilities\<close> is an array
  (as \<^verbatim>\<open>ContractAgentData\<close> declares it) and the array of the same field values in the order
  owner, name, version, capabilities, stake, reputation, isActive, registeredAt give the
  same \<^verbatim>\<open>agentInfo\<close>, field by field the values of the record. A value that is neither an
  object with an \<^verbatim>\<open>owner\<close> field nor an array gives \<^verbatim>\<open>{ isRegistered: false }\<close>.
\<close>

theorem checkRegistration_shape_independent:
  assumes "resolve reg net \<noteq> zeroAddress"
    and "readContract pc t (isAgentRegistered_call (resolve reg net) own) = Inr v"
    and "readContract pc' t (isAgentRegistered_call (resolve reg net) own) = Inr v'"
    and "truthy v" and "truthy v'"
    and "readContract pc (t @ [ReadContract (isAgentRegistered_call (resolve reg net) own)])
           (getAgentByOwner_call (resolve reg net) own) = Inr aid"
    and "readContract pc' (t @ [ReadContract (isAgentRegistered_call (resolve reg net) own)])
           (getAgentByOwner_call (resolve reg net) own) = Inr aid"
    and "readContract pc (t @ [ReadContract (isAgentRegistered_call (resolve reg net) own),
                               ReadContract (getAgentByOwner_call (resolve reg net) own)])
           (getAgent_call (resolve reg net) aid) = Inr d"
    and "readContract pc' (t @ [ReadContract (isAgentRegistered_call (resolve reg net) own),
                                ReadContract (getAgentByOwner_call (resolve reg net) own)])
           (getAgent_call (resolve reg net) aid) = Inr d'"
  shows "(d = JObject kvs \<and> has_field ''owner'' d \<and> get_field d ''capabilities'' = JArray cs \<and>
          d' = positional d \<longrightarrow>
            fst (checkRegistration pc net own reg t) = fst (checkRegistration pc' net own reg t) \<and>
            fst (checkRegistration pc net own reg t) =
              Inr \<lparr>isRegistered = True, agentInfo = Some
                \<lparr>agentId = aid,
                 owner = get_field d ''owner'',
                 name = get_field d ''name'',
                 version = get_field d ''version'',
                 capabilities = get_field d ''capabilities'',
                 stake = get_field d ''stake'',
                 reputation = get_field d ''reputation'',
                 isActive = get_field d ''isActive'',
                 registeredAt = get_field d ''registeredAt''\<rparr>\<rparr>) \<and>
         (\<not> (truthy d \<and> typeof_object d \<and> has_field ''owner'' d) \<and> \<not> isArray d \<longrightarrow>
            fst (checkRegistration pc net own reg t) = Inr notRegistered)"
proof (intro conjI impI)
  let ?T = "t @ [ReadContract (isAgentRegistered_call (resolve reg net) own),
                 ReadContract (getAgentByOwner_call (resolve reg net) own),
                 ReadContract (getAgent_call (resolve reg net) aid)]"
  assume neither: "\<not> (truthy d \<and> typeof_object d \<and> has_field ''owner'' d) \<and> \<not> isArray d"
  show "fst (checkRegistration pc net own reg t) = Inr notRegistered"
    using neither checkRegistration_registered [OF assms(1) assms(2) assms(4) assms(6) assms(8)]
    by (simp add: normalize_neither)
next
  let ?T = "t @ [ReadContract (isAgentRegistered_call (resolve reg net) own),
                 ReadContract (getAgentByOwner_call (resolve reg net) own),
                 ReadContract (getAgent_call (resolve reg net) aid)]"
  assume shapes: "d = JObject kvs \<and> has_field ''owner'' d \<and>
    get_field d ''capabilities'' = JArray cs \<and> d' = positional d"
  have d: "d = JObject kvs" and o: "has_field ''owner'' (JObject kvs)"
    and c: "get_field (JObject kvs) ''capabilities'' = JArray cs"
    and d': "d' = positional (JObject kvs)"
    using shapes by blast+
  have a: "fst (checkRegistration pc net own reg t) =
              Inr \<lparr>isRegistered = True, agentInfo = Some
                \<lparr>agentId = aid,
                 owner = get_field d ''owner'',
                 name = get_field d ''name'',
                 version = get_field d ''version'',
                 capabilities = get_field d ''capabilities'',
                 stake = get_field d ''stake'',
                 reputation = get_field d ''reputation'',
                 isActive = get_field d ''isActive'',
                 registeredAt = get_field d ''registeredAt''\<rparr>\<rparr>"
    unfolding checkRegistration_registered [OF assms(1) assms(2) assms(4) assms(6) assms(8)]
    unfolding d normalize_structured [OF o c, of aid ?T] c
    by simp
  have b: "fst (checkRegistration pc' net own reg t) =
              Inr \<lparr>isRegistered = True, agentInfo = Some
                \<lparr>agentId = aid,
                 owner = get_field d ''owner'',
                 name = get_field d ''name'',
                 version = get_field d ''version'',
                 capabilities = get_field d ''capabilities'',
                 stake = get_field d ''stake'',
                 reputation = get_field d ''reputation'',
                 isActive = get_field d ''isActive'',
                 registeredAt = get_field d ''registeredAt''\<rparr>\<rparr>"
    unfolding checkRegistration_registered [OF assms(1) assms(3) assms(5) assms(7) assms(9)]
    unfolding d d' normalize_positional [of aid kvs ?T]
    by simp
  show "fst (checkRegistration pc net own reg t) = fst (checkRegistration pc' net own reg t)"
    using a b by simp
  show "fst (checkRegistration pc net own reg t) =
              Inr \<lparr>isRegistered = True, agentInfo = Some
                \<lparr>agentId = aid,
                 owner = get_field d ''owner'',
                 name = get_field d ''name'',
                 version = get_field d ''version'',
                 capabilities = get_field d ''capabilities'',
                 stake = get_field d ''stake'',
                 reputation = get_field d ''reputation'',
                 isActive = get_field d ''isActive'',
                 registeredAt = get_field d ''registeredAt''\<rparr>\<rparr>"
    by (rule a)
qed


theorem checkRegistration_shape_independent_witness:
  "fst (checkRegistration (chainClient sampleAgent emptyReceipt) ArbitrumSepolia ''0xA3'' None []) =
   fst (checkRegistration (chainClient (positional sampleAgent) emptyReceipt) ArbitrumSepolia
          ''0xA3'' None []) \<and>
   fst (checkRegistration (chainClient sampleAgent emptyReceipt) ArbitrumSepolia ''0xA3'' None []) =
     Inr \<lparr>isRegistered = True, agentInfo = Some
       \<lparr>agentId = JString ''0x01'', owner = JString ''0xA3'', name = JString ''MyAgent'',
        version = JString ''0.1.0'', capabilities = JArray [JString ''text-generation''],
        stake = JBigInt 10, reputation = JBigInt 0, isActive = JBool True,
        registeredAt = JBigInt 1700000000\<rparr>\<rparr> \<and>
   fst (checkRegistration (chainClient (JString ''0x'') emptyReceipt) ArbitrumSepolia ''0xA3''
          None []) = Inr notRegistered"
  using
    checkRegistration_shape_independent
      [where reg = None and net = ArbitrumSepolia and t = "[]" and own = "''0xA3''"
         and pc = "chainClient sampleAgent emptyReceipt"
         and pc' = "chainClient (positional sampleAgent) emptyReceipt"
         and v = "JBool True" and v' = "JBool True" and aid = "JString ''0x01''"
         and d = sampleAgent and d' = "positional sampleAgent"
         and cs = "[JString ''text-generation'']"
         and kvs = "[(''owner'', JString ''0xA3''), (''name'', JString ''MyAgent''),
      (''version'', JString ''0.1.0''), (''capabilities'', JArray [JString ''text-generation'']),
      (''stake'', JBigInt 10), (''reputation'', JBigInt 0), (''isActive'', JBool True),
      (''registeredAt'', JBigInt 1700000000)]"]
    checkRegistration_shape_independent
      [where reg = None and net = ArbitrumSepolia and t = "[]" and own = "''0xA3''"
         and pc = "chainClient (JString ''0x'') emptyReceipt"
         and pc' = "chainClient (JString ''0x'') emptyReceipt"
         and v = "JBool True" and v' = "JBool True" and aid = "JString ''0x01''"
         and d = "JString ''0x''" and d' = "JString ''0x''"]
  by (auto simp add: chainClient_def sampleAgent_def resolve_def zeroAddress_def
      isAgentRegistered_call_def getAgentByOwner_call_def getAgent_call_def)

section \<open>The two readers of the stake\<close>

text \<open>
  Claim C10. The two readers of the stake agree on every raw record both decode. For an
  object with an \<^verbatim>\<open>owner\<close> and a \<^verbatim>\<open>stake\<close> field whose \<^verbatim>\<open>capabilities\<close> is an array (as
  \<^verbatim>\<open>ContractAgentData\<close> declares it) the normalizer of \<^verbatim>\<open>checkRegistration\<close> yields a record
  whose \<^verbatim>\<open>stake\<close> is the named field, and \<^verbatim>\<open>getAgentStake\<close> returns that same field. For an
  array the normalizer yields a record whose \<^verbatim>\<open>stake\<close> is index 4, and \<^verbatim>\<open>getAgentStake\<close>
  returns that same element. More generally, whenever the normalizer decodes a raw
  record that is an array or has a \<^verbatim>\<open>stake\<close> field, \<^verbatim>\<open>getAgentStake\<close> returns the \<^verbatim>\<open>stake\<close>
  of the decoded record. For a raw value that is neither an array nor an object with a
  \<^verbatim>\<open>stake\<close> field, in particular for everything that is neither an object nor an array,
  \<^verbatim>\<open>getAgentStake\<close> returns \<^verbatim>\<open>0n\<close>.
\<close>

theorem stake_readers_agree:
  assumes "readContract pc t (getAgent_call (resolve reg net) aid) = Inr d"
  shows "(d = JObject kvs \<and> has_field ''owner'' d \<and> has_field ''stake'' d \<and>
          get_field d ''capabilities'' = JArray cs \<longrightarrow>
            (\<exists>info. fst (normalizeAgentData aid' d t') =
                      Inr \<lparr>isRegistered = True, agentInfo = Some info\<rparr> \<and>
                    stake info = get_field d ''stake'') \<and>
            fst (getAgentStake pc net aid reg t) = Inr (get_field d ''stake'')) \<and>
         (d = JArray xs \<longrightarrow>
            (\<exists>info. fst (normalizeAgentData aid' d t') =
                      Inr \<lparr>isRegistered = True, agentInfo = Some info\<rparr> \<and>
                    stake info = js_nth xs 4) \<and>
            fst (getAgentStake pc net aid reg t) = Inr (js_nth xs 4)) \<and>
         (fst (normalizeAgentData aid' d t') = Inr s \<and> agentInfo s = Some info' \<and>
          (isArray d \<or> has_field ''stake'' d) \<longrightarrow>
            fst (getAgentStake pc net aid reg t) = Inr (stake info')) \<and>
         (\<not> isArray d \<and> \<not> (truthy d \<and> typeof_object d \<and> has_field ''stake'' d) \<longrightarrow>
            fst (getAgentStake pc net aid reg t) = Inr (JBigInt 0))"
proof (intro conjI impI)
  assume h: "d = JObject kvs \<and> has_field ''owner'' d \<and> has_field ''stake'' d \<and>
          get_field d ''capabilities'' = JArray cs"
  then have o: "has_field ''owner'' (JObject kvs)"
    and c: "get_field (JObject kvs) ''capabilities'' = JArray cs" and d: "d = JObject kvs"
    by blast+
  show "\<exists>info. fst (normalizeAgentData aid' d t') =
                      Inr \<lparr>isRegistered = True, agentInfo = Some info\<rparr> \<and>
                    stake info = get_field d ''stake''"
    unfolding d normalize_structured [OF o c, of aid' t'] by simp
  show "fst (getAgentStake pc net aid reg t) = Inr (get_field d ''stake'')"
    using assms h
    by (auto simp add: getAgentStake_def io_bind_def io_return_def await_readContract_def
        Let_def)
next
  assume d: "d = JArray xs"
  show "\<exists>info. fst (normalizeAgentData aid' d t') =
                      Inr \<lparr>isRegistered = True, agentInfo = Some info\<rparr> \<and>
                    stake info = js_nth xs 4"
    unfolding d by (simp add: normalizeAgentData_def io_return_def)
  show "fst (getAgentStake pc net aid reg t) = Inr (js_nth xs 4)"
    using assms d
    by (simp add: getAgentStake_def io_bind_def io_return_def await_readContract_def Let_def)
next
  assume "fst (normalizeAgentData aid' d t') = Inr s \<and> agentInfo s = Some info' \<and>
          (isArray d \<or> has_field ''stake'' d)"
  then show "fst (getAgentStake pc net aid reg t) = Inr (stake info')"
    using assms
    unfolding getAgentStake_def normalizeAgentData_def io_bind_def io_return_def
      await_readContract_def Let_def notRegistered_def
    by (cases d) (auto split: prod.splits sum.splits if_splits)
next
  assume "\<not> isArray d \<and> \<not> (truthy d \<and> typeof_object d \<and> has_field ''stake'' d)"
  then show "fst (getAgentStake pc net aid reg t) = Inr (JBigInt 0)"
    using assms
    by (auto simp add: getAgentStake_def io_bind_def io_return_def await_readContract_def Let_def)
qed

theorem stake_readers_agree_witness:
  "(\<exists>info. fst (normalizeAgentData (JString ''0x01'') sampleAgent []) =
             Inr \<lparr>isRegistered = True, agentInfo = Some info\<rparr> \<and> stake info = JBigInt 10) \<and>
   fst (getAgentStake (chainClient sampleAgent emptyReceipt) ArbitrumSepolia (JString ''0x01'')
          None []) = Inr (JBigInt 10) \<and>
   (\<exists>info. fst (normalizeAgentData (JString ''0x01'') (positional sampleAgent) []) =
             Inr \<lparr>isRegistered = True, agentInfo = Some info\<rparr> \<and> stake info = JBigInt 10) \<and>
   fst (getAgentStake (chainClient (positional sampleAgent) emptyReceipt) ArbitrumSepolia
          (JString ''0x01'') None []) = Inr (JBigInt 10) \<and>
   fst (getAgentStake (chainClient JNull emptyReceipt) ArbitrumSepolia (JString ''0x01'')
          None []) = Inr (JBigInt 0)"
  using
    stake_readers_agree
      [where pc = "chainClient sampleAgent emptyReceipt" and t = "[]" and reg = None
         and net = ArbitrumSepolia and aid = "JString ''0x01''" and d = sampleAgent
         and aid' = "JString ''0x01''" and t' = "[]"
         and cs = "[JString ''text-generation'']"
         and kvs = "[(''owner'', JString ''0xA3''), (''name'', JString ''MyAgent''),
      (''version'', JString ''0.1.0''), (''capabilities'', JArray [JString ''text-generation'']),
      (''stake'', JBigInt 10), (''reputation'', JBigInt 0), (''isActive'', JBool True),
      (''registeredAt'', JBigInt 1700000000)]"]
    stake_readers_agree
      [where pc = "chainClient (positional sampleAgent) emptyReceipt" and t = "[]" and reg = None
         and net = ArbitrumSepolia and aid = "JString ''0x01''" and d = "positional sampleAgent"
         and aid' = "JString ''0x01''" and t' = "[]"
         and xs = "[JString ''0xA3'', JString ''MyAgent'', JString ''0.1.0'',
                    JArray [JString ''text-generation''], JBigInt 10, JBigInt 0, JBool True,
                    JBigInt 1700000000]"]
    stake_readers_agree
      [where pc = "chainClient JNull emptyReceipt" and t = "[]" and reg = None
         and net = ArbitrumSepolia and aid = "JString ''0x01''" and d = JNull]
  by (simp add: chainClient_def sampleAgent_def positional_def resolve_def getAgent_call_def
      js_nth_def)

section \<open>The event signature of registerAgent\<close>

lemma expectedTopic_eq: "expectedTopic = ''0xagentregistered''"
  by (simp add: expectedTopic_def toLowerCase_def lower_char_def)

lemma length_toLowerCase: "length (toLowerCase s) = length s"
  by (simp add: toLowerCase_def)

lemma topic32_no_match:
  assumes "isTopic32 v"
  shows "\<not> isRegisteredEvent \<lparr>topics = v # vs, data = d\<rparr>"
proof -
  obtain s where v: "v = JString s" and len: "length s = 66"
    using assms by (cases v) auto
  have "length (toLowerCase s) \<noteq> length expectedTopic"
    using len by (simp add: length_toLowerCase expectedTopic_eq)
  then have "toLowerCase s \<noteq> expectedTopic" by auto
  then show ?thesis
    by (simp add: isRegisteredEvent_def topic0_toLowerCase_def js_nth_def v)
qed

lemma wellFormed_no_event:
  assumes "list_all (\<lambda>log. list_all isTopic32 (topics log)) ls"
  shows "find isRegisteredEvent ls = None"
  using assms
proof (induction ls)
  case Nil
  then show ?case by simp
next
  case (Cons l ls)
  have "\<not> isRegisteredEvent l"
  proof (cases "topics l")
    case Nil
    then show ?thesis
      by (simp add: isRegisteredEvent_def topic0_toLowerCase_def js_nth_def)
  next
    case (Cons v vs)
    with Cons.prems have "isTopic32 v" by simp
    from topic32_no_match [OF this, of vs "data l"] Cons show ?thesis
      by (cases l) simp
  qed
  with Cons show ?case by simp
qed

lemma extractAgentId_wellFormed: "wellFormedLogs r \<Longrightarrow> extractAgentId r = JUndefined"
  by (simp add: wellFormedLogs_def extractAgentId_def wellFormed_no_event)

lemma registerAgent_returns:
  assumes "account wc = Some a" and "resolve reg net \<noteq> zeroAddress"
    and "writeContract wc t (registerAgent_request (resolve reg net) md st a) = Inr h"
    and "waitForTransactionReceipt pc
           (t @ [WriteContract (registerAgent_request (resolve reg net) md st a)]) h = Inr r"
  shows "registerAgent pc wc net md st reg t =
         (Inr \<lparr>hash = h, result_agentId = extractAgentId r\<rparr>,
          t @ [WriteContract (registerAgent_request (resolve reg net) md st a),
               WaitForTransactionReceipt h])"
  using assms
  by (simp add: registerAgent_def io_bind_def io_return_def await_writeContract_def
      await_waitForTransactionReceipt_def Let_def)

text \<open>
  Claim C3. The topic \<^verbatim>\<open>registerAgent\<close> compares with is the concatenation
  \<^verbatim>\<open>'0x' + 'agentregistered'\<close>, not a hash; no 32-byte topic equals it, in any letter case;
  so whenever the receipt's logs carry only well-formed topics, the result of
  \<^verbatim>\<open>registerAgent\<close> has the transaction hash and an undefined \<^verbatim>\<open>agentId\<close>.
\<close>

theorem expected_topic_never_matches:
  "expectedTopic = ''0xagentregistered'' \<and>
   (isTopic32 (JString s) \<longrightarrow> toLowerCase s \<noteq> expectedTopic) \<and>
   (account wc = Some a \<and> resolve reg net \<noteq> zeroAddress \<and>
    writeContract wc t (registerAgent_request (resolve reg net) md st a) = Inr h \<and>
    waitForTransactionReceipt pc
      (t @ [WriteContract (registerAgent_request (resolve reg net) md st a)]) h = Inr r \<and>
    wellFormedLogs r \<longrightarrow>
      fst (registerAgent pc wc net md st reg t) = Inr \<lparr>hash = h, result_agentId = JUndefined\<rparr>)"
proof (intro conjI impI)
  show "expectedTopic = ''0xagentregistered''" by (rule expectedTopic_eq)
next
  assume "isTopic32 (JString s)"
  then have "length (toLowerCase s) \<noteq> length expectedTopic"
    by (simp add: length_toLowerCase expectedTopic_eq)
  then show "toLowerCase s \<noteq> expectedTopic" by auto
next
  assume h: "account wc = Some a \<and> resolve reg net \<noteq> zeroAddress \<and>
    writeContract wc t (registerAgent_request (resolve reg net) md st a) = Inr h \<and>
    waitForTransactionReceipt pc
      (t @ [WriteContract (registerAgent_request (resolve reg net) md st a)]) h = Inr r \<and>
    wellFormedLogs r"
  then show "fst (registerAgent pc wc net md st reg t) =
      Inr \<lparr>hash = h, result_agentId = JUndefined\<rparr>"
    by (simp add: registerAgent_returns extractAgentId_wellFormed)
qed

theorem expected_topic_never_matches_witness:
  "isTopic32 (JString ''0x8c5be1e5ebec7d5bd14f71427d1e84f3dd0314c0f7b2291e5b200ac8c7c3b925'') \<and>
   toLowerCase ''0x8c5be1e5ebec7d5bd14f71427d1e84f3dd0314c0f7b2291e5b200ac8c7c3b925''
     \<noteq> expectedTopic \<and>
   wellFormedLogs registeredReceipt \<and>
   fst (registerAgent (chainClient sampleAgent registeredReceipt) signer ArbitrumSepolia
          sampleMetadata None None []) = Inr \<lparr>hash = ''0xTX'', result_agentId = JUndefined\<rparr>"
  using expected_topic_never_matches
    [where s = "''0x8c5be1e5ebec7d5bd14f71427d1e84f3dd0314c0f7b2291e5b200ac8c7c3b925''"
       and wc = signer and a = "Account ''0xA3''" and reg = None and net = ArbitrumSepolia
       and t = "[]" and md = sampleMetadata and st = None and h = "''0xTX''"
       and pc = "chainClient sampleAgent registeredReceipt" and r = registeredReceipt]
  by (simp add: signer_def chainClient_def registeredReceipt_def wellFormedLogs_def
      isHexDigit_def resolve_def zeroAddress_def)

section \<open>Running tasks: outcomes and traces\<close>

lemma txStates_append: "txStates (xs @ ys) = txStates xs @ txStates ys"
  by (induction xs rule: txStates.induct) simp_all

lemma quietI: "(\<And>t. \<exists>es. snd (m t) = t @ es \<and> txStates es = []) \<Longrightarrow> quiet m"
  by (simp add: quiet_def)

lemma quietD: "quiet m \<Longrightarrow> \<exists>es. snd (m t) = t @ es \<and> txStates es = []"
  by (simp add: quiet_def)

lemma quiet_return: "quiet (io_return x)"
  by (simp add: quiet_def io_return_def)

lemma quiet_throw: "quiet (io_throw e)"
  by (simp add: quiet_def io_throw_def)

lemma quiet_bind:
  assumes "quiet m" and "\<And>x. quiet (f x)"
  shows "quiet (io_bind m f)"
proof (rule quietI)
  fix t
  obtain r t' where mt: "m t = (r, t')" by (cases "m t")
  from quietD [OF assms(1), of t] mt obtain es where es: "t' = t @ es" "txStates es = []"
    by auto
  show "\<exists>es. snd (io_bind m f t) = t @ es \<and> txStates es = []"
  proof (cases r)
    case (Inl e)
    with mt es show ?thesis by (auto simp: io_bind_def)
  next
    case (Inr x)
    from quietD [OF assms(2), of x t'] obtain es' where
      es': "snd (f x t') = t' @ es'" "txStates es' = []" by auto
    with Inr mt es show ?thesis
      by (auto simp: io_bind_def txStates_append intro!: exI [of _ "es @ es'"])
  qed
qed

lemma quiet_catch:
  assumes "quiet m" and "\<And>e. quiet (h e)"
  shows "quiet (io_catch m h)"
proof (rule quietI)
  fix t
  obtain r t' where mt: "m t = (r, t')" by (cases "m t")
  from quietD [OF assms(1), of t] mt obtain es where es: "t' = t @ es" "txStates es = []"
    by auto
  show "\<exists>es. snd (io_catch m h t) = t @ es \<and> txStates es = []"
  proof (cases r)
    case (Inr x)
    with mt es show ?thesis by (auto simp: io_catch_def)
  next
    case (Inl e)
    from quietD [OF assms(2), of e t'] obtain es' where
      es': "snd (h e t') = t' @ es'" "txStates es' = []" by auto
    with Inl mt es show ?thesis
      by (auto simp: io_catch_def txStates_append intro!: exI [of _ "es @ es'"])
  qed
qed

lemma quiet_finally:
  assumes "quiet m" and "quiet f"
  shows "quiet (io_finally m f)"
proof (rule quietI)
  fix t
  obtain r t' where mt: "m t = (r, t')" by (cases "m t")
  from quietD [OF assms(1), of t] mt obtain es where es: "t' = t @ es" "txStates es = []"
    by auto
  from quietD [OF assms(2), of t'] obtain es' where
    es': "snd (f t') = t' @ es'" "txStates es' = []" by auto
  obtain r' t'' where ft: "f t' = (r', t'')" by (cases "f t'")
  with es' have "t'' = t' @ es'" by simp
  with mt ft es es' show "\<exists>es. snd (io_finally m f t) = t @ es \<and> txStates es = []"
    by (cases r') (auto simp: io_finally_def txStates_append intro!: exI [of _ "es @ es'"])
qed

lemma quiet_emit: "txStates [ev] = [] \<Longrightarrow> quiet (emit ev)"
  by (simp add: quiet_def emit_def)

lemma quiet_readContract: "quiet (await_readContract pc c)"
  by (simp add: quiet_def await_readContract_def)

lemma quiet_writeContract: "quiet (await_writeContract wc p)"
  by (simp add: quiet_def await_writeContract_def)

lemma quiet_waitForTransactionReceipt: "quiet (await_waitForTransactionReceipt pc h)"
  by (simp add: quiet_def await_waitForTransactionReceipt_def)

lemmas quiet_intros =
  quiet_return quiet_throw quiet_bind quiet_catch quiet_finally quiet_emit
  quiet_readContract quiet_writeContract quiet_waitForTransactionReceipt

lemma quiet_spread: "quiet (spread v)"
  by (cases v) (simp_all add: quiet_intros)

lemma quiet_normalizeAgentData: "quiet (normalizeAgentData aid d)"
  unfolding normalizeAgentData_def
  by (auto intro!: quiet_intros quiet_spread)

lemma quiet_checkRegistration: "quiet (checkRegistration pc net own reg)"
  unfolding checkRegistration_def checkRegistration_try_def Let_def
  by (auto intro!: quiet_intros quiet_normalizeAgentData)

lemma quiet_fetchStatus: "quiet (fetchStatus opts)"
  unfolding fetchStatus_def
  by (auto intro!: quiet_intros quiet_checkRegistration split: option.splits)

lemma quiet_registerAgent: "quiet (registerAgent pc wc net md st reg)"
  unfolding registerAgent_def Let_def
  by (auto intro!: quiet_intros split: option.splits)

lemma quiet_updateAgentCapabilities: "quiet (updateAgentCapabilities pc wc net aid cs reg)"
  unfolding updateAgentCapabilities_def Let_def
  by (auto intro!: quiet_intros split: option.splits)

lemma quiet_addAgentStake: "quiet (addAgentStake pc wc net aid n reg)"
  unfolding addAgentStake_def Let_def
  by (auto intro!: quiet_intros split: option.splits)

lemma quiet_withdrawAgentStake: "quiet (withdrawAgentStake pc wc net aid n reg)"
  unfolding withdrawAgentStake_def Let_def
  by (auto intro!: quiet_intros split: option.splits)

lemma quiet_deactivateAgent: "quiet (deactivateAgent pc wc net aid reg)"
  unfolding deactivateAgent_def Let_def
  by (auto intro!: quiet_intros split: option.splits)

lemma quiet_reactivateAgent: "quiet (reactivateAgent pc wc net aid reg)"
  unfolding reactivateAgent_def Let_def
  by (auto intro!: quiet_intros split: option.splits)

lemma quiet_registryCall: "quiet (registryCall pc wc opts status a)"
  by (cases a)
    (simp_all add: quiet_registerAgent quiet_updateAgentCapabilities quiet_addAgentStake
      quiet_withdrawAgentStake quiet_deactivateAgent quiet_reactivateAgent)

lemma checkRegistration_Inr: "\<exists>s t'. checkRegistration pc net own reg t = (Inr s, t')"
  unfolding checkRegistration_def io_catch_def io_return_def Let_def
  by (auto split: prod.splits sum.splits)

lemma fetchStatus_ok: "fst (fetchStatus opts t) = Inr ()"
proof (cases "publicClient opts")
  case None
  then show ?thesis by (simp add: fetchStatus_def emit_def)
next
  case (Some pc)
  show ?thesis
  proof (cases "userAddress opts")
    case None
    with Some show ?thesis by (simp add: fetchStatus_def emit_def)
  next
    case addr: (Some addr)
    show ?thesis
    proof (cases "addr = []")
      case True
      with Some addr show ?thesis by (simp add: fetchStatus_def emit_def)
    next
      case False
      obtain s t' where
        "checkRegistration pc (network opts) addr (registryAddress opts)
           (t @ [SetIsLoading True, SetError None]) = (Inr s, t')"
        using checkRegistration_Inr by blast
      with Some addr False show ?thesis
        by (simp add: fetchStatus_def emit_def io_bind_def io_catch_def io_finally_def)
    qed
  qed
qed

lemma tracked_success:
  assumes "m (t @ [SetTxState (TxPending None), SetError None]) = (Inr res, t2)"
  shows "tracked m msg opts t =
         (Inr res, snd (fetchStatus opts (t2 @ [SetTxState (TxSuccess (hash res))])))"
proof -
  have "io_bind (fetchStatus opts) (\<lambda>u. io_return res) (t2 @ [SetTxState (TxSuccess (hash res))])
        = (Inr res, snd (fetchStatus opts (t2 @ [SetTxState (TxSuccess (hash res))])))"
    using fetchStatus_ok [of opts "t2 @ [SetTxState (TxSuccess (hash res))]"]
    by (cases "fetchStatus opts (t2 @ [SetTxState (TxSuccess (hash res))])")
      (simp add: io_bind_def io_return_def)
  then show ?thesis
    using assms by (simp add: tracked_def io_bind_def emit_def io_catch_def)
qed

lemma tracked_failure:
  assumes "m (t @ [SetTxState (TxPending None), SetError None]) = (Inl e, t2)"
  shows "tracked m msg opts t =
         (Inl (toError e msg),
          t2 @ [SetTxState (TxError (toError e msg)), SetError (Some (toError e msg))])"
  using assms by (simp add: tracked_def io_bind_def emit_def io_catch_def io_throw_def)

lemma invoke_tracked:
  assumes "publicClient opts = Some pc" and "walletClient opts = Some wc"
    and "isRegister a \<or> truthy (status_agentId status)"
  shows "invoke opts status a =
         tracked (registryCall pc wc opts status a) (fallbackMessage a) opts"
  using assms
  by (cases a)
    (simp_all add: register_def updateCapabilities_def addStake_def withdrawStake_def
      deactivate_def reactivate_def tracked_def)

lemma invoke_guard:
  assumes "publicClient opts = None \<or> walletClient opts = None \<or>
           (\<not> isRegister a \<and> \<not> truthy (status_agentId status))"
  shows "invoke opts status a t = (Inl (Error (guardMessage a)), t)"
  using assms
  by (cases a)
    (auto simp add: register_def updateCapabilities_def addStake_def withdrawStake_def
      deactivate_def reactivate_def io_throw_def split: option.splits)

lemma registryCall_no_account:
  assumes "account wc = None"
  shows "registryCall pc wc opts status a t = (Inl (Error ''Wallet not connected''), t)"
  using assms
  by (cases a)
    (simp_all add: registerAgent_def updateAgentCapabilities_def addAgentStake_def
      withdrawAgentStake_def deactivateAgent_def reactivateAgent_def io_throw_def Let_def)

section \<open>The transaction state of a write action\<close>

text \<open>
  Claim C5. A write action whose guard in the hook passes (both clients attached and,
  for every action but \<^verbatim>\<open>register\<close>, a cached agent identifier) first sets \<^verbatim>\<open>txState\<close> to
  pending, before it does anything else, and sets it exactly once more: to success with
  the hash of the result it returns, or to error with the error it rejects with. So the
  observable sequence is pending and then success or error, never success or error
  without pending before.
\<close>

theorem txState_sequence:
  assumes "publicClient opts = Some pc" and "walletClient opts = Some wc"
    and "isRegister a \<or> truthy (status_agentId status)"
  shows "\<exists>es. snd (invoke opts status a t) = t @ SetTxState (TxPending None) # es \<and>
           ((\<exists>res. fst (invoke opts status a t) = Inr res \<and>
                   txStates es = [TxSuccess (hash res)]) \<or>
            (\<exists>e. fst (invoke opts status a t) = Inl e \<and> txStates es = [TxError e]))"
proof -
  let ?m = "registryCall pc wc opts status a"
  let ?t1 = "t @ [SetTxState (TxPending None), SetError None]"
  obtain r t2 where run: "?m ?t1 = (r, t2)" by (cases "?m ?t1")
  from quietD [OF quiet_registryCall, of pc wc opts status a ?t1] run
  obtain es1 where es1: "t2 = ?t1 @ es1" "txStates es1 = []" by auto
  show ?thesis
  proof (cases r)
    case (Inr res)
    let ?t3 = "t2 @ [SetTxState (TxSuccess (hash res))]"
    from quietD [OF quiet_fetchStatus, of opts ?t3]
    obtain es2 where es2: "snd (fetchStatus opts ?t3) = ?t3 @ es2" "txStates es2 = []" by auto
    have "invoke opts status a t = (Inr res, ?t3 @ es2)"
      using run Inr es2 by (simp add: invoke_tracked [OF assms] tracked_success)
    with es1 es2 show ?thesis
      by (auto simp: txStates_append
          intro!: exI [of _ "SetError None # es1 @ SetTxState (TxSuccess (hash res)) # es2"])
  next
    case (Inl e)
    let ?e = "toError e (fallbackMessage a)"
    have "invoke opts status a t = (Inl ?e, t2 @ [SetTxState (TxError ?e), SetError (Some ?e)])"
      using run Inl by (simp add: invoke_tracked [OF assms] tracked_failure)
    with es1 show ?thesis
      by (auto simp: txStates_append
          intro!: exI [of _ "SetError None # es1 @ [SetTxState (TxError ?e), SetError (Some ?e)]"])
  qed
qed

theorem txState_sequence_witness:
  "(\<exists>es. snd (invoke (hookOptions (chainClient sampleAgent emptyReceipt) (Some signer)) None
                 (Register sampleMetadata None) [])
            = [] @ SetTxState (TxPending None) # es \<and>
           ((\<exists>res. fst (invoke (hookOptions (chainClient sampleAgent emptyReceipt) (Some signer)) None
                 (Register sampleMetadata None) []) = Inr res \<and>
                   txStates es = [TxSuccess (hash res)]) \<or>
            (\<exists>e. fst (invoke (hookOptions (chainClient sampleAgent emptyReceipt) (Some signer)) None
                 (Register sampleMetadata None) []) = Inl e \<and> txStates es = [TxError e]))) \<and>
   txStates (snd (invoke (hookOptions (chainClient sampleAgent emptyReceipt) (Some signer)) None
                 (Register sampleMetadata None) [])) = [TxPending None, TxSuccess ''0xTX''] \<and>
   txStates (snd (invoke (hookOptions (chainClient sampleAgent emptyReceipt) (Some rejectingSigner))
                 (Some registeredStatus) (AddStake 5) []))
     = [TxPending None, TxError (Error ''User rejected the request'')]"
proof (intro conjI)
  show "\<exists>es. snd (invoke (hookOptions (chainClient sampleAgent emptyReceipt) (Some signer)) None
                 (Register sampleMetadata None) [])
            = [] @ SetTxState (TxPending None) # es \<and>
           ((\<exists>res. fst (invoke (hookOptions (chainClient sampleAgent emptyReceipt) (Some signer)) None
                 (Register sampleMetadata None) []) = Inr res \<and>
                   txStates es = [TxSuccess (hash res)]) \<or>
            (\<exists>e. fst (invoke (hookOptions (chainClient sampleAgent emptyReceipt) (Some signer)) None
                 (Register sampleMetadata None) []) = Inl e \<and> txStates es = [TxError e]))"
    by (rule txState_sequence [where pc = "chainClient sampleAgent emptyReceipt" and wc = signer])
      (simp_all add: hookOptions_def)
next
  show "txStates (snd (invoke (hookOptions (chainClient sampleAgent emptyReceipt) (Some signer)) None
                 (Register sampleMetadata None) [])) = [TxPending None, TxSuccess ''0xTX'']"
    by (simp add: register_def hookOptions_def registerAgent_def signer_def chainClient_def
        io_bind_def io_catch_def io_return_def emit_def await_writeContract_def
        await_waitForTransactionReceipt_def resolve_def zeroAddress_def Let_def
        fetchStatus_def io_finally_def checkRegistration_def checkRegistration_try_def
        await_readContract_def normalizeAgentData_def sampleAgent_def)
next
  show "txStates (snd (invoke (hookOptions (chainClient sampleAgent emptyReceipt) (Some rejectingSigner))
                 (Some registeredStatus) (AddStake 5) []))
     = [TxPending None, TxError (Error ''User rejected the request'')]"
    by (simp add: addStake_def hookOptions_def addAgentStake_def rejectingSigner_def
        registeredStatus_def status_agentId_def toError_def
        io_bind_def io_catch_def io_return_def io_throw_def emit_def await_writeContract_def
        resolve_def Let_def)
qed

section \<open>The refresh after a write action\<close>

text \<open>
  Claim C6 says that a refresh of the status follows a settled action in the success
  state and in the error state alike. After an action settles in error the callback
  rethrows and nothing follows: here the wallet rejects a registration, and the trace
  ends with the two setters of the \<^verbatim>\<open>catch\<close> block, with no read of the chain and no
  \<^verbatim>\<open>setStatus\<close> after them.
\<close>

theorem error_settles_without_refresh:
  "invoke (hookOptions (chainClient sampleAgent emptyReceipt) (Some rejectingSigner)) None
     (Register sampleMetadata None) [] =
   (Inl (Error ''User rejected the request''),
    [SetTxState (TxPending None), SetError None,
     WriteContract (registerAgent_request ''0x517De4c9Afa737A46Dcba61e1548AB3807963094''
        sampleMetadata None (Account ''0xA3'')),
     SetTxState (TxError (Error ''User rejected the request'')),
     SetError (Some (Error ''User rejected the request''))])"
  by (simp add: register_def hookOptions_def registerAgent_def rejectingSigner_def
      toError_def io_bind_def io_catch_def io_return_def io_throw_def emit_def
      await_writeContract_def resolve_def zeroAddress_def Let_def)

text \<open>
  Claim C6 as the code has it. For a write action whose guard passes: when it returns a
  result, what follows \<^verbatim>\<open>setTxState\<close> of success is exactly a run of \<^verbatim>\<open>fetchStatus\<close>, and
  \<^verbatim>\<open>txState\<close> is still that success afterwards; when it rejects, the trace ends with
  \<^verbatim>\<open>setTxState\<close> of the error and \<^verbatim>\<open>setError\<close>, and no refresh follows. \<^verbatim>\<open>fetchStatus\<close>
  itself never rejects and never sets \<^verbatim>\<open>txState\<close>, whatever the chain answers.
\<close>

theorem refresh_after_success_only:
  assumes "publicClient opts = Some pc" and "walletClient opts = Some wc"
    and "isRegister a \<or> truthy (status_agentId status)"
  shows "(fst (invoke opts status a t) = Inr res \<longrightarrow>
            snd (invoke opts status a t) =
              snd (fetchStatus opts
                (snd (registryCall pc wc opts status a
                        (t @ [SetTxState (TxPending None), SetError None]))
                 @ [SetTxState (TxSuccess (hash res))])) \<and>
            txState (snd (invoke opts status a t)) = TxSuccess (hash res)) \<and>
         (fst (invoke opts status a t) = Inl e \<longrightarrow>
            snd (invoke opts status a t) =
              snd (registryCall pc wc opts status a
                     (t @ [SetTxState (TxPending None), SetError None]))
              @ [SetTxState (TxError e), SetError (Some e)]) \<and>
         fst (fetchStatus opts t') = Inr () \<and>
         txStates (snd (fetchStatus opts t')) = txStates t'"
proof -
  let ?m = "registryCall pc wc opts status a"
  let ?t1 = "t @ [SetTxState (TxPending None), SetError None]"
  obtain r t2 where run: "?m ?t1 = (r, t2)" by (cases "?m ?t1")
  have quiet_refresh: "txStates (snd (fetchStatus opts u)) = txStates u" for u
    using quietD [OF quiet_fetchStatus, of opts u] by (auto simp: txStates_append)
  have succ: "fst (invoke opts status a t) = Inr res \<longrightarrow>
            snd (invoke opts status a t) =
              snd (fetchStatus opts (snd (?m ?t1) @ [SetTxState (TxSuccess (hash res))])) \<and>
            txState (snd (invoke opts status a t)) = TxSuccess (hash res)"
  proof (cases r)
    case (Inr res')
    have "invoke opts status a t =
          (Inr res', snd (fetchStatus opts (t2 @ [SetTxState (TxSuccess (hash res'))])))"
      using run Inr by (simp add: invoke_tracked [OF assms] tracked_success)
    then show ?thesis
      using run by (auto simp: txState_def quiet_refresh txStates_append)
  next
    case (Inl e')
    have "invoke opts status a t =
          (Inl (toError e' (fallbackMessage a)),
           t2 @ [SetTxState (TxError (toError e' (fallbackMessage a))),
                 SetError (Some (toError e' (fallbackMessage a)))])"
      using run Inl by (simp add: invoke_tracked [OF assms] tracked_failure)
    then show ?thesis by simp
  qed
  have fail: "fst (invoke opts status a t) = Inl e \<longrightarrow>
            snd (invoke opts status a t) =
              snd (?m ?t1) @ [SetTxState (TxError e), SetError (Some e)]"
  proof (cases r)
    case (Inr res')
    have "invoke opts status a t =
          (Inr res', snd (fetchStatus opts (t2 @ [SetTxState (TxSuccess (hash res'))])))"
      using run Inr by (simp add: invoke_tracked [OF assms] tracked_success)
    then show ?thesis by simp
  next
    case (Inl e')
    have "invoke opts status a t =
          (Inl (toError e' (fallbackMessage a)),
           t2 @ [SetTxState (TxError (toError e' (fallbackMessage a))),
                 SetError (Some (toError e' (fallbackMessage a)))])"
      using run Inl by (simp add: invoke_tracked [OF assms] tracked_failure)
    then show ?thesis using run by auto
  qed
  from succ fail fetchStatus_ok [of opts t'] quiet_refresh [of t'] show ?thesis
    by blast
qed


theorem refresh_after_success_only_witness:
  "fst (invoke (hookOptions (readFaultClient emptyReceipt) (Some signer)) None
          (Register sampleMetadata None) [])
     = Inr \<lparr>hash = ''0xTX'', result_agentId = JUndefined\<rparr> \<and>
   snd (invoke (hookOptions (readFaultClient emptyReceipt) (Some signer)) None
          (Register sampleMetadata None) [])
     = [SetTxState (TxPending None), SetError None,
        WriteContract (registerAgent_request ''0x517De4c9Afa737A46Dcba61e1548AB3807963094''
          sampleMetadata None (Account ''0xA3'')),
        WaitForTransactionReceipt ''0xTX'',
        SetTxState (TxSuccess ''0xTX''),
        SetIsLoading True, SetError None,
        ReadContract (isAgentRegistered_call ''0x517De4c9Afa737A46Dcba61e1548AB3807963094'' ''0xA3''),
        SetStatus (Some notRegistered), SetIsLoading False] \<and>
   txState (snd (invoke (hookOptions (readFaultClient emptyReceipt) (Some signer)) None
          (Register sampleMetadata None) [])) = TxSuccess ''0xTX''"
  using refresh_after_success_only
    [where opts = "hookOptions (readFaultClient emptyReceipt) (Some signer)"
       and pc = "readFaultClient emptyReceipt" and wc = signer
       and a = "Register sampleMetadata None" and status = None and t = "[]"
       and res = "\<lparr>hash = ''0xTX'', result_agentId = JUndefined\<rparr>"]
  by (simp add: register_def hookOptions_def registerAgent_def signer_def readFaultClient_def
      emptyReceipt_def extractAgentId_def
      io_bind_def io_catch_def io_return_def emit_def await_writeContract_def
      await_waitForTransactionReceipt_def resolve_def zeroAddress_def Let_def
      fetchStatus_def io_finally_def checkRegistration_def checkRegistration_try_def
      await_readContract_def)

section \<open>Write actions without a signer\<close>

text \<open>
  Claim C7 says that without a signer, the wallet client or its account missing, the
  tracker is never placed into pending. With a wallet client that has no account the
  hook's guard passes, pending is set, and the account check of \<^verbatim>\<open>registerAgent\<close> then
  settles the action in error:
\<close>

theorem pending_before_account_check:
  "invoke (hookOptions (chainClient sampleAgent emptyReceipt) (Some lockedWallet)) None
     (Register sampleMetadata None) [] =
   (Inl (Error ''Wallet not connected''),
    [SetTxState (TxPending None), SetError None,
     SetTxState (TxError (Error ''Wallet not connected'')),
     SetError (Some (Error ''Wallet not connected''))])"
  by (simp add: register_def hookOptions_def registerAgent_def lockedWallet_def
      toError_def io_bind_def io_catch_def io_return_def io_throw_def emit_def Let_def)

text \<open>
  Claim C7 as the code has it. With a client missing (the wallet client, or the public
  client) every write callback rejects at its guard, with
  \<^verbatim>\<open>Error('Wallet not connected')\<close> for \<^verbatim>\<open>register\<close> and
  \<^verbatim>\<open>Error('Agent not registered or wallet not connected')\<close> for the other five, and the
  trace is unchanged: no state is set and the chain is not called. With the account
  missing every function of \<^verbatim>\<open>registry.ts\<close> rejects with
  \<^verbatim>\<open>Error('Wallet not connected')\<close> before any call of the chain. Through the hook, with
  a wallet client that has no account: when the guard passes (the public client is
  attached and, for every action but \<^verbatim>\<open>register\<close>, the cached status holds a truthy
  \<^verbatim>\<open>agentId\<close>) the tracker goes to pending and then to error with that error, and the
  chain is still not called; when the guard fails for want of a cached \<^verbatim>\<open>agentId\<close> the
  callback rejects with \<^verbatim>\<open>Error('Agent not registered or wallet not connected')\<close> and the
  trace is unchanged.
\<close>

theorem no_signer:
  "(publicClient opts = None \<or> walletClient opts = None \<longrightarrow>
      register opts md st t = (Inl (Error ''Wallet not connected''), t) \<and>
      (\<not> isRegister a \<longrightarrow>
         invoke opts status a t =
           (Inl (Error ''Agent not registered or wallet not connected''), t))) \<and>
   (account wc = None \<longrightarrow>
      registryCall pc wc opts status a t = (Inl (Error ''Wallet not connected''), t)) \<and>
   (publicClient opts = Some pc \<and> walletClient opts = Some wc \<and> account wc = None \<and>
    (isRegister a \<or> truthy (status_agentId status)) \<longrightarrow>
      invoke opts status a t =
        (Inl (Error ''Wallet not connected''),
         t @ [SetTxState (TxPending None), SetError None,
              SetTxState (TxError (Error ''Wallet not connected'')),
              SetError (Some (Error ''Wallet not connected''))])) \<and>
   (walletClient opts = Some wc \<and> account wc = None \<and>
    \<not> isRegister a \<and> \<not> truthy (status_agentId status) \<longrightarrow>
      invoke opts status a t =
        (Inl (Error ''Agent not registered or wallet not connected''), t))"
proof (intro conjI impI)
  assume "publicClient opts = None \<or> walletClient opts = None"
  then show "register opts md st t = (Inl (Error ''Wallet not connected''), t)"
    by (auto simp add: register_def io_throw_def split: option.splits)
next
  assume "publicClient opts = None \<or> walletClient opts = None" and "\<not> isRegister a"
  then show "invoke opts status a t =
      (Inl (Error ''Agent not registered or wallet not connected''), t)"
    using invoke_guard [of opts a status t] by (cases a) auto
next
  assume "account wc = None"
  then show "registryCall pc wc opts status a t = (Inl (Error ''Wallet not connected''), t)"
    by (rule registryCall_no_account)
next
  assume h: "publicClient opts = Some pc \<and> walletClient opts = Some wc \<and> account wc = None \<and>
    (isRegister a \<or> truthy (status_agentId status))"
  then have "invoke opts status a =
      tracked (registryCall pc wc opts status a) (fallbackMessage a) opts"
    by (simp add: invoke_tracked)
  moreover have "registryCall pc wc opts status a
      (t @ [SetTxState (TxPending None), SetError None]) =
      (Inl (Error ''Wallet not connected''), t @ [SetTxState (TxPending None), SetError None])"
    using h by (simp add: registryCall_no_account)
  ultimately show "invoke opts status a t =
        (Inl (Error ''Wallet not connected''),
         t @ [SetTxState (TxPending None), SetError None,
              SetTxState (TxError (Error ''Wallet not connected'')),
              SetError (Some (Error ''Wallet not connected''))])"
    by (simp add: tracked_failure toError_def)
next
  assume "walletClient opts = Some wc \<and> account wc = None \<and>
    \<not> isRegister a \<and> \<not> truthy (status_agentId status)"
  then show "invoke opts status a t =
      (Inl (Error ''Agent not registered or wallet not connected''), t)"
    using invoke_guard [of opts a status t] by (cases a) auto
qed

theorem no_signer_witness:
  "register (hookOptions (chainClient sampleAgent emptyReceipt) None) sampleMetadata None []
     = (Inl (Error ''Wallet not connected''), []) \<and>
   invoke (hookOptions (chainClient sampleAgent emptyReceipt) None) (Some registeredStatus)
     (AddStake 5) [] = (Inl (Error ''Agent not registered or wallet not connected''), []) \<and>
   registryCall (chainClient sampleAgent emptyReceipt) lockedWallet
     (hookOptions (chainClient sampleAgent emptyReceipt) (Some lockedWallet))
     (Some registeredStatus) (AddStake 5) [] = (Inl (Error ''Wallet not connected''), []) \<and>
   invoke (hookOptions (chainClient sampleAgent emptyReceipt) (Some lockedWallet))
     (Some registeredStatus) (AddStake 5) [] =
     (Inl (Error ''Wallet not connected''),
      [SetTxState (TxPending None), SetError None,
       SetTxState (TxError (Error ''Wallet not connected'')),
       SetError (Some (Error ''Wallet not connected''))]) \<and>
   invoke (hookOptions (chainClient sampleAgent emptyReceipt) (Some lockedWallet))
     None (AddStake 5) [] =
     (Inl (Error ''Agent not registered or wallet not connected''), [])"
  using
    no_signer [where opts = "hookOptions (chainClient sampleAgent emptyReceipt) None"
      and md = sampleMetadata and st = None and t = "[]" and a = "AddStake 5"
      and status = "Some registeredStatus" and wc = lockedWallet]
    no_signer [where opts = "hookOptions (chainClient sampleAgent emptyReceipt) (Some lockedWallet)"
      and pc = "chainClient sampleAgent emptyReceipt" and wc = lockedWallet
      and t = "[]" and a = "AddStake 5" and status = "Some registeredStatus"]
    no_signer [where opts = "hookOptions (chainClient sampleAgent emptyReceipt) (Some lockedWallet)"
      and wc = lockedWallet and t = "[]" and a = "AddStake 5" and status = None]
  by (simp add: hookOptions_def lockedWallet_def registeredStatus_def status_agentId_def)

section \<open>Registration without a matching log\<close>

lemma find_no_event: "\<not> list_ex isRegisteredEvent ls \<Longrightarrow> find isRegisteredEvent ls = None"
  by (induction ls) simp_all

text \<open>
  Claim C8. When \<^verbatim>\<open>register\<close> runs through (clients and account attached, a deployed
  registry, the transaction submitted and its receipt obtained) and no log of the
  receipt is taken for the registration event, the result carries the transaction hash
  and an undefined \<^verbatim>\<open>agentId\<close>, the call returns it rather than rejecting, and the
  tracker goes to pending and then to success with that hash.
\<close>

theorem register_without_event:
  assumes "publicClient opts = Some pc" and "walletClient opts = Some wc"
    and "account wc = Some acct"
    and "resolve (registryAddress opts) (network opts) \<noteq> zeroAddress"
    and "writeContract wc (t @ [SetTxState (TxPending None), SetError None])
           (registerAgent_request (resolve (registryAddress opts) (network opts)) md st acct)
         = Inr h"
    and "waitForTransactionReceipt pc
           (t @ [SetTxState (TxPending None), SetError None,
                 WriteContract (registerAgent_request
                   (resolve (registryAddress opts) (network opts)) md st acct)]) h
         = Inr r"
    and "\<not> list_ex isRegisteredEvent (logs r)"
  shows "fst (register opts md st t) = Inr \<lparr>hash = h, result_agentId = JUndefined\<rparr> \<and>
         txStates (snd (register opts md st t)) = txStates t @ [TxPending None, TxSuccess h] \<and>
         txState (snd (register opts md st t)) = TxSuccess h"
proof -
  let ?req = "registerAgent_request (resolve (registryAddress opts) (network opts)) md st acct"
  let ?t1 = "t @ [SetTxState (TxPending None), SetError None]"
  let ?res = "\<lparr>hash = h, result_agentId = JUndefined\<rparr>"
  let ?t2 = "?t1 @ [WriteContract ?req, WaitForTransactionReceipt h]"
  have "extractAgentId r = JUndefined"
    using assms(7) by (simp add: extractAgentId_def find_no_event)
  then have lib: "registerAgent pc wc (network opts) md st (registryAddress opts) ?t1 = (Inr ?res, ?t2)"
    using registerAgent_returns [of wc acct "registryAddress opts" "network opts" ?t1 md st h pc r]
      assms(3-6)
    by simp
  have eq: "register opts md st =
      tracked (registerAgent pc wc (network opts) md st (registryAddress opts))
        ''Registration failed'' opts"
    using invoke_tracked [of opts pc wc "Register md st" None] assms(1,2) by simp
  have run: "register opts md st t =
      (Inr ?res, snd (fetchStatus opts (?t2 @ [SetTxState (TxSuccess h)])))"
    unfolding eq
    using tracked_success
      [where m = "registerAgent pc wc (network opts) md st (registryAddress opts)"
         and t = t and res = ?res and ?t2.0 = ?t2 and msg = "''Registration failed''"
         and opts = opts]
      lib
    by simp
  from quietD [OF quiet_fetchStatus, of opts "?t2 @ [SetTxState (TxSuccess h)]"]
  obtain es where es: "snd (fetchStatus opts (?t2 @ [SetTxState (TxSuccess h)])) =
      (?t2 @ [SetTxState (TxSuccess h)]) @ es" "txStates es = []" by auto
  show ?thesis
    unfolding run using es by (simp add: txStates_append txState_def)
qed

theorem register_without_event_witness:
  "\<not> list_ex isRegisteredEvent (logs registeredReceipt) \<and>
   fst (register (hookOptions (chainClient sampleAgent registeredReceipt) (Some signer))
          sampleMetadata (Some 5) [])
     = Inr \<lparr>hash = ''0xTX'', result_agentId = JUndefined\<rparr> \<and>
   txStates (snd (register (hookOptions (chainClient sampleAgent registeredReceipt) (Some signer))
          sampleMetadata (Some 5) [])) = [TxPending None, TxSuccess ''0xTX''] \<and>
   txState (snd (register (hookOptions (chainClient sampleAgent registeredReceipt) (Some signer))
          sampleMetadata (Some 5) [])) = TxSuccess ''0xTX''"
  using register_without_event
    [where opts = "hookOptions (chainClient sampleAgent registeredReceipt) (Some signer)"
       and pc = "chainClient sampleAgent registeredReceipt" and wc = signer
       and acct = "Account ''0xA3''" and t = "[]" and md = sampleMetadata and st = "Some 5"
       and h = "''0xTX''" and r = registeredReceipt]
  by (simp add: hookOptions_def signer_def chainClient_def registeredReceipt_def
      resolve_def zeroAddress_def isRegisteredEvent_def topic0_toLowerCase_def js_nth_def
      toLowerCase_def lower_char_def expectedTopic_def)

section \<open>Actions that need a registered agent\<close>

text \<open>
  Claim C9. With no agent identifier in the cached status (no status, no \<^verbatim>\<open>agentInfo\<close>,
  or an \<^verbatim>\<open>agentId\<close> that is not truthy) each of the five callbacks that act on a
  registered agent rejects with \<^verbatim>\<open>Error('Agent not registered or wallet not connected')\<close>,
  the error the hook has for a missing registration, and leaves the trace as it was: no
  state is set and the chain is not called.
\<close>

theorem not_registered_guard:
  assumes "\<not> truthy (status_agentId status)"
  shows "updateCapabilities opts status cs t =
           (Inl (Error ''Agent not registered or wallet not connected''), t) \<and>
         addStake opts status amount t =
           (Inl (Error ''Agent not registered or wallet not connected''), t) \<and>
         withdrawStake opts status amount t =
           (Inl (Error ''Agent not registered or wallet not connected''), t) \<and>
         deactivate opts status t =
           (Inl (Error ''Agent not registered or wallet not connected''), t) \<and>
         reactivate opts status t =
           (Inl (Error ''Agent not registered or wallet not connected''), t)"
  using assms
  by (simp add: updateCapabilities_def addStake_def withdrawStake_def deactivate_def
      reactivate_def io_throw_def split: option.splits)

theorem not_registered_guard_witness:
  "\<not> truthy (status_agentId None) \<and> \<not> truthy (status_agentId (Some notRegistered)) \<and>
   updateCapabilities (hookOptions (chainClient sampleAgent emptyReceipt) (Some signer)) None
     [''web-search''] [] = (Inl (Error ''Agent not registered or wallet not connected''), []) \<and>
   addStake (hookOptions (chainClient sampleAgent emptyReceipt) (Some signer))
     (Some notRegistered) 5 [] = (Inl (Error ''Agent not registered or wallet not connected''), []) \<and>
   withdrawStake (hookOptions (chainClient sampleAgent emptyReceipt) (Some signer))
     (Some notRegistered) 5 [] = (Inl (Error ''Agent not registered or wallet not connected''), []) \<and>
   deactivate (hookOptions (chainClient sampleAgent emptyReceipt) (Some signer)) None []
     = (Inl (Error ''Agent not registered or wallet not connected''), []) \<and>
   reactivate (hookOptions (chainClient sampleAgent emptyReceipt) (Some signer)) None []
     = (Inl (Error ''Agent not registered or wallet not connected''), [])"
  using
    not_registered_guard
      [where status = None
         and opts = "hookOptions (chainClient sampleAgent emptyReceipt) (Some signer)"
         and t = "[]" and cs = "[''web-search'']" and amount = 5]
    not_registered_guard
      [where status = "Some notRegistered"
         and opts = "hookOptions (chainClient sampleAgent emptyReceipt) (Some signer)"
         and t = "[]" and cs = "[''web-search'']" and amount = 5]
  by (simp add: status_agentId_def notRegistered_def)

section \<open>The zero address on the write path\<close>

text \<open>
  On \<^verbatim>\<open>arbitrum\<close>, whose configured registry is the zero address, and under an override
  that is the zero address, \<^verbatim>\<open>checkRegistration\<close> answers not registered and leaves the
  trace as it was: the chain is not queried.
\<close>

theorem sentinel_checkRegistration:
  "checkRegistration pc Arbitrum own None t = (Inr notRegistered, t) \<and>
   checkRegistration pc net own (Some zeroAddress) t = (Inr notRegistered, t)"
  by (simp add: checkRegistration_def resolve_def zeroAddress_def io_return_def)

text \<open>
  There \<^verbatim>\<open>registerAgent\<close>, called with an account, rejects with
  \<^verbatim>\<open>Error('Registry contract not deployed on this network')\<close> and leaves the trace as it
  was: nothing is submitted.
\<close>

theorem sentinel_registerAgent:
  "registerAgent pc (wc\<lparr>account := Some a\<rparr>) Arbitrum md st None t =
     (Inl (Error ''Registry contract not deployed on this network''), t) \<and>
   registerAgent pc (wc\<lparr>account := Some a\<rparr>) net md st (Some zeroAddress) t =
     (Inl (Error ''Registry contract not deployed on this network''), t)"
  by (simp add: registerAgent_def resolve_def zeroAddress_def io_throw_def)

text \<open>
  Claim C4 says that on a network whose registry is the zero address every write action
  fails before it submits. \<^verbatim>\<open>checkRegistration\<close> and \<^verbatim>\<open>registerAgent\<close> test for the zero
  address (the two theorems above); the other five functions of \<^verbatim>\<open>registry.ts\<close> do not.
  On \<^verbatim>\<open>arbitrum\<close>, with no override, each of them submits its transaction to the zero
  address, \<^verbatim>\<open>addAgentStake\<close> with the stake attached, and returns the hash:
\<close>

theorem sentinel_writes_are_submitted:
  "resolve None Arbitrum = zeroAddress \<and>
   updateAgentCapabilities (chainClient sampleAgent emptyReceipt) signer Arbitrum
     (JString ''0x01'') [''web-search''] None [] =
     (Inr \<lparr>hash = ''0xTX'', result_agentId = JUndefined\<rparr>,
      [WriteContract \<lparr>address = ''0x0000000000000000000000000000000000000000'',
          functionName = ''updateCapabilities'',
          args = [JString ''0x01'', JArray [JString ''web-search'']],
          call_value = None, call_account = Account ''0xA3''\<rparr>,
       WaitForTransactionReceipt ''0xTX'']) \<and>
   addAgentStake (chainClient sampleAgent emptyReceipt) signer Arbitrum
     (JString ''0x01'') 5 None [] =
     (Inr \<lparr>hash = ''0xTX'', result_agentId = JUndefined\<rparr>,
      [WriteContract \<lparr>address = ''0x0000000000000000000000000000000000000000'',
          functionName = ''stake'', args = [JString ''0x01''],
          call_value = Some 5, call_account = Account ''0xA3''\<rparr>,
       WaitForTransactionReceipt ''0xTX'']) \<and>
   withdrawAgentStake (chainClient sampleAgent emptyReceipt) signer Arbitrum
     (JString ''0x01'') 5 None [] =
     (Inr \<lparr>hash = ''0xTX'', result_agentId = JUndefined\<rparr>,
      [WriteContract \<lparr>address = ''0x0000000000000000000000000000000000000000'',
          functionName = ''withdraw'', args = [JString ''0x01'', JBigInt 5],
          call_value = None, call_account = Account ''0xA3''\<rparr>,
       WaitForTransactionReceipt ''0xTX'']) \<and>
   deactivateAgent (chainClient sampleAgent emptyReceipt) signer Arbitrum
     (JString ''0x01'') None [] =
     (Inr \<lparr>hash = ''0xTX'', result_agentId = JUndefined\<rparr>,
      [WriteContract \<lparr>address = ''0x0000000000000000000000000000000000000000'',
          functionName = ''deactivateAgent'', args = [JString ''0x01''],
          call_value = None, call_account = Account ''0xA3''\<rparr>,
       WaitForTransactionReceipt ''0xTX'']) \<and>
   reactivateAgent (chainClient sampleAgent emptyReceipt) signer Arbitrum
     (JString ''0x01'') None [] =
     (Inr \<lparr>hash = ''0xTX'', result_agentId = JUndefined\<rparr>,
      [WriteContract \<lparr>address = ''0x0000000000000000000000000000000000000000'',
          functionName = ''reactivateAgent'', args = [JString ''0x01''],
          call_value = None, call_account = Account ''0xA3''\<rparr>,
       WaitForTransactionReceipt ''0xTX''])"
  by (simp add: updateAgentCapabilities_def addAgentStake_def withdrawAgentStake_def
      deactivateAgent_def reactivateAgent_def signer_def chainClient_def resolve_def
      zeroAddress_def io_bind_def io_return_def await_writeContract_def
      await_waitForTransactionReceipt_def Let_def)

end
